theory Spec2Isabelle
  imports
    Complex_Main
    "HOL-Library.Multiset"
    "HOL-Library.Product_Lexorder"
    "HOL-Library.Char_ord"
    "HOL-Library.List_Lexorder"
begin

section \<open>Data model\<close>

text \<open>
  Symbols are Python strings. Prices and percentages are floats in the source; they are
  modelled as reals, a missing value (None or NaN) as \<open>None\<close>. The values a numpy
  division can produce on top of that (NaN and the two infinities, from a zero divisor)
  are the constructors of \<open>npfloat\<close>. Signed zeros, rounding error and overflow of
  IEEE arithmetic are not modelled.
\<close>

type_synonym symbol = string

datatype npfloat = NaN | NegInf | Fin real | PosInf

datatype error = AttributeError | ZeroDivisionError | TypeError | FetchError

text \<open>
  \<open>((a - b) / b) * 100\<close> on numpy scalars or pandas columns: a NaN operand gives NaN, a
  zero divisor gives an infinity with the sign of the numerator, or NaN for \<open>0 / 0\<close>.
  It is the deviation from the moving average in the screening and the change from the
  last buy price in the averaging step.
\<close>

definition pct_diff :: "real option \<Rightarrow> real option \<Rightarrow> npfloat" where
  "pct_diff a b =
     (case (a, b) of
        (Some x, Some y) \<Rightarrow>
          (if y = 0
           then (if 0 < x - y then PosInf else if x - y < 0 then NegInf else NaN)
           else Fin ((x - y) / y * 100))
      | _ \<Rightarrow> NaN)"

text \<open>Float comparison: every comparison with NaN is False.\<close>

definition np_less :: "real option \<Rightarrow> real option \<Rightarrow> bool" where
  "np_less a b = (case (a, b) of (Some x, Some y) \<Rightarrow> x < y | _ \<Rightarrow> False)"

fun np_le_real :: "npfloat \<Rightarrow> real \<Rightarrow> bool" where
  "np_le_real NaN t = False"
| "np_le_real NegInf t = True"
| "np_le_real (Fin x) t = (x \<le> t)"
| "np_le_real PosInf t = False"

fun np_le :: "npfloat \<Rightarrow> npfloat \<Rightarrow> bool" where
  "np_le NaN b = False"
| "np_le a NaN = False"
| "np_le NegInf b = True"
| "np_le (Fin x) (Fin y) = (x \<le> y)"
| "np_le (Fin x) PosInf = True"
| "np_le (Fin x) NegInf = False"
| "np_le PosInf PosInf = True"
| "np_le PosInf b = False"

text \<open>
  The position of a float in an ascending sort: minus infinity, the finite values in
  their order, plus infinity, and NaN last (where pandas puts it; no NaN ever reaches a
  sort below).
\<close>

fun sort_pos :: "npfloat \<Rightarrow> nat \<times> real" where
  "sort_pos NegInf = (0, 0)"
| "sort_pos (Fin x) = (1, x)"
| "sort_pos PosInf = (2, 0)"
| "sort_pos NaN = (3, 0)"

section \<open>Screening\<close>

text \<open>
  A price history as the data provider returns it: a frame with a date index and,
  when the column exists, one Close value per row (\<open>None\<close> for NaN).
\<close>

record frame =
  has_Close :: bool
  index_rows :: "(int \<times> real option) list"

datatype fetched = Raises | Returned "frame option"

text \<open>\<open>df.empty\<close>\<close>

definition df_empty :: "frame \<Rightarrow> bool" where
  "df_empty df = (index_rows df = [])"

text \<open>
  \<open>df['Close'].rolling(window=w).mean().iloc[-1]\<close>: NaN with fewer than \<open>w\<close> rows or
  with a NaN among the last \<open>w\<close> values, their mean otherwise.
\<close>

definition rolling_mean_last :: "nat \<Rightarrow> real option list \<Rightarrow> real option" where
  "rolling_mean_last w xs =
     (if length xs < w then None
      else (case those (drop (length xs - w) xs) of
              None \<Rightarrow> None
            | Some vs \<Rightarrow> Some (sum_list vs / real w)))"

text \<open>
  \<open>df.sort_index()['Close']\<close>; rows with the same date stay in the order of the
  frame.
\<close>

definition sorted_closes :: "frame \<Rightarrow> real option list" where
  "sorted_closes df = map snd (sort_key fst (index_rows df))"

definition latest_close :: "frame \<Rightarrow> real option" where
  "latest_close df = last (sorted_closes df)"

definition latest_dma :: "frame \<Rightarrow> real option" where
  "latest_dma df = rolling_mean_last 20 (sorted_closes df)"

text \<open>
  The body of the \<open>try\<close> block of \<open>get_eligible_stocks_for_today\<close> (strategy module)
  for one symbol: an exception of the fetch is \<open>Inl\<close>, \<open>continue\<close> and a symbol that is
  not below its average are \<open>Inr None\<close>, an appended result is \<open>Inr (Some _)\<close>.
\<close>

definition screen_symbol :: "(symbol \<Rightarrow> fetched) \<Rightarrow> symbol \<Rightarrow> error + (symbol \<times> npfloat) option" where
  "screen_symbol hist s =
     (case hist s of
        Raises \<Rightarrow> Inl FetchError
      | Returned None \<Rightarrow> Inr None
      | Returned (Some df) \<Rightarrow>
          (if df_empty df \<or> \<not> has_Close df then Inr None
           else (case latest_dma df of
                   None \<Rightarrow> Inr None
                 | Some m \<Rightarrow>
                     (let deviation = pct_diff (latest_close df) (Some m)
                      in if np_less (latest_close df) (Some m)
                         then Inr (Some (s, deviation))
                         else Inr None))))"

text \<open>
  The loop over the universe; \<open>except Exception\<close> logs and goes on with the next
  symbol, so an \<open>Inl\<close> of the body leaves the results as they are.
\<close>

fun screen_loop :: "(symbol \<Rightarrow> fetched) \<Rightarrow> symbol list \<Rightarrow> (symbol \<times> npfloat) list \<Rightarrow> (symbol \<times> npfloat) list" where
  "screen_loop hist [] results = results"
| "screen_loop hist (s # ss) results =
     (case screen_symbol hist s of
        Inl e \<Rightarrow> screen_loop hist ss results
      | Inr None \<Rightarrow> screen_loop hist ss results
      | Inr (Some r) \<Rightarrow> screen_loop hist ss (results @ [r]))"

text \<open>\<open>sorted(results, key=lambda x: x[1])[:5]\<close>; Python's sort is stable.\<close>

definition top_5 :: "(symbol \<times> npfloat) list \<Rightarrow> (symbol \<times> npfloat) list" where
  "top_5 results = take 5 (sort_key (\<lambda>x. sort_pos (snd x)) results)"

text \<open>
  \<open>get_eligible_stocks_for_today\<close> of the strategy module. With an empty universe it
  logs and returns None (the bare \<open>return\<close>), otherwise the list of at most five
  symbols. No statement of it raises outside the \<open>try\<close>, so the result is always
  \<open>Inr\<close>.
\<close>

definition get_eligible_stocks_for_today :: "(symbol \<Rightarrow> fetched) \<Rightarrow> symbol list \<Rightarrow> error + symbol list option" where
  "get_eligible_stocks_for_today hist symbols =
     (if length symbols = 0 then Inr None
      else Inr (Some (map fst (top_5 (screen_loop hist symbols [])))))"


text \<open>What the loop keeps of one symbol: the appended result, if there is one.\<close>

definition kept :: "(symbol \<Rightarrow> fetched) \<Rightarrow> symbol \<Rightarrow> (symbol \<times> npfloat) option" where
  "kept hist s = (case screen_symbol hist s of Inr (Some r) \<Rightarrow> Some r | _ \<Rightarrow> None)"

subsection \<open>The dashboard's screening (app.py)\<close>

text \<open>
  \<open>get_historical_data\<close> of the dashboard: an exception in its \<open>try\<close> block (of the
  download, or of \<open>df.empty\<close> on a download that returned None) and an empty frame
  give None; rows whose date occurs again later are dropped
  (\<open>~df.index.duplicated(keep='last')\<close>).
\<close>

fun drop_duplicated_keep_last :: "(int \<times> real option) list \<Rightarrow> (int \<times> real option) list" where
  "drop_duplicated_keep_last [] = []"
| "drop_duplicated_keep_last (r # rs) =
     (if fst r \<in> set (map fst rs) then drop_duplicated_keep_last rs
      else r # drop_duplicated_keep_last rs)"

definition get_historical_data :: "(symbol \<Rightarrow> fetched) \<Rightarrow> symbol \<Rightarrow> frame option" where
  "get_historical_data download s =
     (case download s of
        Raises \<Rightarrow> None
      | Returned None \<Rightarrow> None
      | Returned (Some df) \<Rightarrow>
          (if df_empty df then None
           else Some (df\<lparr>index_rows := drop_duplicated_keep_last (index_rows df)\<rparr>)))"

record screen_row =
  Symbol :: symbol
  Deviation :: npfloat
  CMP :: real
  DMA20 :: real

text \<open>
  The body of the dashboard's loop for one symbol. Frames have a single level of
  columns, so \<open>iloc[-1]\<close> is a scalar and the two \<open>isinstance\<close> branches are not taken.
\<close>

definition app_screen_symbol :: "(symbol \<Rightarrow> fetched) \<Rightarrow> symbol \<Rightarrow> error + screen_row option" where
  "app_screen_symbol download s =
     (case get_historical_data download s of
        None \<Rightarrow> Inr None
      | Some df \<Rightarrow>
          (if df_empty df \<or> \<not> has_Close df \<or> length (index_rows df) < 20 then Inr None
           else (case (latest_close df, latest_dma df) of
                   (Some c, Some m) \<Rightarrow>
                     (if c < m
                      then Inr (Some \<lparr>Symbol = s, Deviation = pct_diff (Some c) (Some m),
                                      CMP = c, DMA20 = m\<rparr>)
                      else Inr None)
                 | _ \<Rightarrow> Inr None)))"

fun app_screen_loop :: "(symbol \<Rightarrow> fetched) \<Rightarrow> symbol list \<Rightarrow> screen_row list \<Rightarrow> screen_row list" where
  "app_screen_loop download [] results = results"
| "app_screen_loop download (s # ss) results =
     (case app_screen_symbol download s of
        Inl e \<Rightarrow> app_screen_loop download ss results
      | Inr None \<Rightarrow> app_screen_loop download ss results
      | Inr (Some r) \<Rightarrow> app_screen_loop download ss (results @ [r]))"

text \<open>
  \<open>get_nifty50_symbols\<close> of the dashboard. \<open>Fails\<close> is any exception inside its \<open>try\<close>
  block (the request, a status other than 200, a blank or non-JSON body, an entry
  without a symbol); \<open>Data names\<close> is a JSON reply, \<open>names\<close> the \<open>symbol\<close> fields of
  \<open>data.get('data', [])\<close>. An exception gives the static list. A reply with symbols
  gives them; a reply without any leaves the \<open>try\<close> block with no \<open>return\<close>, and the
  function returns None.
\<close>

datatype nse_reply = Fails | Data "string list"

definition static_nifty50 :: "symbol list" where
  "static_nifty50 =
     [''RELIANCE.NS'', ''TCS.NS'', ''HDFCBANK.NS'', ''ICICIBANK.NS'', ''INFY.NS'',
      ''HINDUNILVR.NS'', ''BHARTIARTL.NS'', ''ITC.NS'', ''SBIN.NS'', ''LICI.NS'',
      ''BAJFINANCE.NS'', ''HCLTECH.NS'', ''KOTAKBANK.NS'', ''MARUTI.NS'', ''LT.NS'',
      ''ASIANPAINT.NS'', ''AXISBANK.NS'', ''SUNPHARMA.NS'', ''WIPRO.NS'', ''ULTRACEMCO.NS'',
      ''NESTLEIND.NS'', ''BAJAJFINSV.NS'', ''ADANIENT.NS'', ''NTPC.NS'', ''M&M.NS'',
      ''JSWSTEEL.NS'', ''TATAMOTORS.NS'', ''POWERGRID.NS'', ''TITAN.NS'', ''TATASTEEL.NS'',
      ''ADANIPORTS.NS'', ''COALINDIA.NS'', ''ONGC.NS'', ''INDUSINDBK.NS'', ''HINDALCO.NS'',
      ''BRITANNIA.NS'', ''CIPLA.NS'', ''DRREDDY.NS'', ''EICHERMOT.NS'', ''GRASIM.NS'',
      ''HEROMOTOCO.NS'', ''BPCL.NS'', ''DIVISLAB.NS'', ''BAJAJ-AUTO.NS'', ''APOLLOHOSP.NS'',
      ''TECHM.NS'', ''UPL.NS'', ''SHREECEM.NS'', ''HDFCLIFE.NS'', ''TATACONSUM.NS'']"

definition get_nifty50_symbols :: "nse_reply \<Rightarrow> symbol list option" where
  "get_nifty50_symbols reply =
     (case reply of
        Fails \<Rightarrow> Some static_nifty50
      | Data names \<Rightarrow>
          (let symbols = map (\<lambda>n. n @ ''.NS'') names
           in if symbols \<noteq> [] then Some symbols else None))"

text \<open>
  \<open>get_eligible_stocks_for_today\<close> of the dashboard, on the universe its caller passes:
  a list, or None. \<open>total_symbols = len(symbols)\<close> stands before the loop and outside
  the \<open>try\<close>, so None raises TypeError. For a list the result is
  \<open>results_df.sort_values(by='Deviation (%)').head(5)\<close>, the empty frame when nothing
  was appended. pandas does not promise the order of rows with equal deviations; the
  model keeps them in the order of the loop.
\<close>

definition app_get_eligible_stocks_for_today ::
  "(symbol \<Rightarrow> fetched) \<Rightarrow> symbol list option \<Rightarrow> error + screen_row list" where
  "app_get_eligible_stocks_for_today download universe =
     (case universe of
        None \<Rightarrow> Inl TypeError
      | Some symbols \<Rightarrow>
          (let results = app_screen_loop download symbols []
           in if results = [] then Inr []
              else Inr (take 5 (sort_key (\<lambda>r. sort_pos (Deviation r)) results))))"

text \<open>
  The screening step of the main page:
  \<open>get_eligible_stocks_for_today(get_nifty50_symbols(), progress_bar)\<close>.
\<close>

definition dashboard_screening :: "(symbol \<Rightarrow> fetched) \<Rightarrow> nse_reply \<Rightarrow> error + screen_row list" where
  "dashboard_screening download reply =
     app_get_eligible_stocks_for_today download (get_nifty50_symbols reply)"

definition app_kept :: "(symbol \<Rightarrow> fetched) \<Rightarrow> symbol \<Rightarrow> screen_row option" where
  "app_kept download s = (case app_screen_symbol download s of Inr (Some r) \<Rightarrow> Some r | _ \<Rightarrow> None)"


section \<open>The trade ledger\<close>

datatype Direction = LONG | SHORT

text \<open>
  Modelled from the spec: the platform's \<open>OrderStatus\<close> enumeration is not part of the
  sources; the strategy only compares a status with \<open>OrderStatus.COMPLETE\<close> ("the entry
  fill is complete").
\<close>

datatype OrderStatus = OPEN | COMPLETE | CANCELLED | REJECTED

record order =
  orderStatus :: OrderStatus
  order_filledQty :: int

record trade =
  strategy :: string
  tradingSymbol :: symbol
  tradeState :: string
  direction :: Direction
  entry :: real
  filledQty :: int
  createTimestamp :: int
  targetOrder :: "order option"
  entryOrder :: "order option"

text \<open>The attributes of the strategy object (\<open>self\<close>) that the decisions read.\<close>

record self =
  strategy_name :: string
  target_pct :: real
  averaging_pct :: real
  max_buys_per_day :: int
  max_sells_per_day :: int
  max_averaging_per_stock :: int

text \<open>
  The condition both passes filter the ledger with,
  \<open>t.strategy == self.name and t.tradeState == 'active' and t.targetOrder is None and
  t.entryOrder.orderStatus == OrderStatus.COMPLETE and t.entryOrder.filledQty > 0\<close>.
  \<open>and\<close> evaluates left to right and stops at the first false operand; reading
  \<open>orderStatus\<close> of a missing entry order raises AttributeError.
\<close>

definition is_holding :: "self \<Rightarrow> trade \<Rightarrow> error + bool" where
  "is_holding slf t =
     (if strategy t = strategy_name slf \<and> tradeState t = ''active'' \<and> targetOrder t = None
      then (case entryOrder t of
              None \<Rightarrow> Inl AttributeError
            | Some ord \<Rightarrow> Inr (orderStatus ord = COMPLETE \<and> 0 < order_filledQty ord))
      else Inr False)"

fun holdings :: "self \<Rightarrow> trade list \<Rightarrow> error + trade list" where
  "holdings slf [] = Inr []"
| "holdings slf (t # ts) =
     (case is_holding slf t of
        Inl e \<Rightarrow> Inl e
      | Inr b \<Rightarrow>
          (case holdings slf ts of
             Inl e \<Rightarrow> Inl e
           | Inr hs \<Rightarrow> Inr (if b then t # hs else hs)))"

section \<open>Sell pass\<close>

text \<open>
  \<open>symbol_trades.setdefault(trade.tradingSymbol, []).append(trade)\<close> on a dictionary
  kept as an association list in insertion order, which is the order \<open>items()\<close> yields.
\<close>

fun setdefault_append :: "(symbol \<times> trade list) list \<Rightarrow> trade \<Rightarrow> (symbol \<times> trade list) list" where
  "setdefault_append [] t = [(tradingSymbol t, [t])]"
| "setdefault_append ((k, ts) # kvs) t =
     (if k = tradingSymbol t then (k, ts @ [t]) # kvs
      else (k, ts) # setdefault_append kvs t)"

definition symbol_trades :: "self \<Rightarrow> trade list \<Rightarrow> error + (symbol \<times> trade list) list" where
  "symbol_trades slf trades =
     (case holdings slf trades of
        Inl e \<Rightarrow> Inl e
      | Inr hs \<Rightarrow> Inr (foldl setdefault_append [] hs))"

definition total_qty :: "trade list \<Rightarrow> int" where
  "total_qty trades = sum_list (map filledQty trades)"

definition weighted_entry :: "trade list \<Rightarrow> real" where
  "weighted_entry trades =
     sum_list (map (\<lambda>t. entry t * of_int (filledQty t)) trades) / of_int (total_qty trades)"

text \<open>
  The body of the loop over \<open>symbol_trades.items()\<close>. \<open>Utils.round_off_price\<close> and
  \<open>get_cmp\<close> belong to the platform and are parameters; a quote that is not available
  is None. The quantities and prices are Python numbers, so the division by
  \<open>total_qty * weighted_entry\<close> raises ZeroDivisionError when that product is zero.
\<close>

definition sell_candidate ::
  "self \<Rightarrow> (real \<Rightarrow> real) \<Rightarrow> (symbol \<Rightarrow> real option) \<Rightarrow> symbol \<times> trade list
     \<Rightarrow> error + (symbol \<times> real \<times> trade list) option" where
  "sell_candidate slf round_off_price get_cmp st =
     (let symbol = fst st; trades = snd st in
      if total_qty trades = 0 then Inr None
      else (case get_cmp symbol of
              None \<Rightarrow> Inr None
            | Some cmp \<Rightarrow>
                (let unrealised_pnl = of_int (total_qty trades) * (cmp - weighted_entry trades) in
                 if of_int (total_qty trades) * weighted_entry trades = 0
                 then Inl ZeroDivisionError
                 else (let pnl_pct = round_off_price
                             (unrealised_pnl * 100 / (of_int (total_qty trades) * weighted_entry trades))
                       in if target_pct slf \<le> pnl_pct
                          then Inr (Some (symbol, pnl_pct, trades))
                          else Inr None))))"

fun sell_candidates ::
  "self \<Rightarrow> (real \<Rightarrow> real) \<Rightarrow> (symbol \<Rightarrow> real option) \<Rightarrow> (symbol \<times> trade list) list
     \<Rightarrow> error + (symbol \<times> real \<times> trade list) list" where
  "sell_candidates slf round_off_price get_cmp [] = Inr []"
| "sell_candidates slf round_off_price get_cmp (st # rest) =
     (case sell_candidate slf round_off_price get_cmp st of
        Inl e \<Rightarrow> Inl e
      | Inr c \<Rightarrow>
          (case sell_candidates slf round_off_price get_cmp rest of
             Inl e \<Rightarrow> Inl e
           | Inr cs \<Rightarrow> Inr (case c of None \<Rightarrow> cs | Some x \<Rightarrow> x # cs)))"

text \<open>\<open>xs[:n]\<close>: a negative \<open>n\<close> counts from the end.\<close>

definition py_prefix :: "int \<Rightarrow> 'a list \<Rightarrow> 'a list" where
  "py_prefix n xs = (if 0 \<le> n then take (nat n) xs else take (length xs - nat (- n)) xs)"

text \<open>
  \<open>initiate_sell\<close>. The result is \<open>to_sell\<close>: the symbols sold, each with its aggregate
  P&L percentage and the trades that are squared off; the empty list when no symbol
  meets the target. \<open>sort(key=..., reverse=True)\<close> is stable, entries with equal
  percentages stay in dictionary order.
\<close>

definition initiate_sell ::
  "self \<Rightarrow> (real \<Rightarrow> real) \<Rightarrow> (symbol \<Rightarrow> real option) \<Rightarrow> trade list
     \<Rightarrow> error + (symbol \<times> real \<times> trade list) list" where
  "initiate_sell slf round_off_price get_cmp trades =
     (case symbol_trades slf trades of
        Inl e \<Rightarrow> Inl e
      | Inr groups \<Rightarrow>
          (case sell_candidates slf round_off_price get_cmp groups of
             Inl e \<Rightarrow> Inl e
           | Inr candidates \<Rightarrow>
               if candidates = [] then Inr []
               else Inr (py_prefix (max_sells_per_day slf)
                          (sort_key (\<lambda>x. - fst (snd x)) candidates))))"

section \<open>Buy and averaging pass\<close>

text \<open>
  \<open>any(t.tradingSymbol == stock for t in TradeManager.trades
        if t.strategy == self.name and t.tradeState == 'active')\<close>
\<close>

definition already_held :: "self \<Rightarrow> trade list \<Rightarrow> symbol \<Rightarrow> bool" where
  "already_held slf trades stock =
     (\<exists>t \<in> set trades. strategy t = strategy_name slf \<and> tradeState t = ''active''
                        \<and> tradingSymbol t = stock)"

text \<open>
  The first loop of \<open>initiate_buy\<close>; \<open>bought\<close> holds the symbols bought so far, its
  length is \<open>new_stocks_bought\<close>. \<open>place_new_trade\<close> belongs to the platform: the model
  records the call and reads the same ledger for the rest of the pass.
\<close>

fun new_buys_loop :: "self \<Rightarrow> trade list \<Rightarrow> symbol list \<Rightarrow> symbol list \<Rightarrow> symbol list" where
  "new_buys_loop slf trades [] bought = bought"
| "new_buys_loop slf trades (stock # rest) bought =
     (if \<not> already_held slf trades stock \<and> int (length bought) < max_buys_per_day slf
      then new_buys_loop slf trades rest (bought @ [stock])
      else new_buys_loop slf trades rest bought)"

record holding_row =
  row_Symbol :: symbol
  LastBuyPrice :: real
  Date :: int

definition row_of :: "trade \<Rightarrow> holding_row" where
  "row_of t = \<lparr>row_Symbol = tradingSymbol t, LastBuyPrice = entry t, Date = createTimestamp t\<rparr>"

text \<open>\<open>idxmax\<close> over one group: the first row with the greatest date.\<close>

fun idxmax_Date :: "holding_row \<Rightarrow> holding_row list \<Rightarrow> holding_row" where
  "idxmax_Date best [] = best"
| "idxmax_Date best (r # rs) = idxmax_Date (if Date best < Date r then r else best) rs"

text \<open>
  \<open>df.loc[df.groupby('Symbol')['Date'].idxmax()]\<close>: one row per symbol, the groups in
  ascending order of the symbol.
\<close>

definition latest_per_symbol :: "holding_row list \<Rightarrow> holding_row list" where
  "latest_per_symbol rows =
     List.map_filter
       (\<lambda>s. case filter (\<lambda>r. row_Symbol r = s) rows of
               [] \<Rightarrow> None
             | g # gs \<Rightarrow> Some (idxmax_Date g gs))
       (sort (remdups (map row_Symbol rows)))"

text \<open>\<open>numpy.rint\<close>: to the nearest integer, a half to the even neighbour.\<close>

definition rint :: "real \<Rightarrow> int" where
  "rint x =
     (let f = \<lfloor>x\<rfloor>; d = x - of_int f
      in if d < 1 / 2 then f else if 1 / 2 < d then f + 1 else if even f then f else f + 1)"

text \<open>\<open>Series.round(2)\<close>\<close>

fun round_2 :: "npfloat \<Rightarrow> npfloat" where
  "round_2 (Fin x) = Fin (of_int (rint (x * 100)) / 100)"
| "round_2 v = v"

text \<open>
  \<open>ChangePct\<close> of a row; a quote that is None is NaN in the \<open>Close\<close> column.
\<close>

definition ChangePct :: "(symbol \<Rightarrow> real option) \<Rightarrow> holding_row \<Rightarrow> npfloat" where
  "ChangePct get_cmp r = round_2 (pct_diff (get_cmp (row_Symbol r)) (Some (LastBuyPrice r)))"

text \<open>
  \<open>_current_averaging_count\<close>: the trades of the strategy for the symbol, in any trade
  state, that are long and whose entry order exists, is complete and filled.
\<close>

definition current_averaging_count :: "self \<Rightarrow> trade list \<Rightarrow> symbol \<Rightarrow> nat" where
  "current_averaging_count slf trades symbol =
     length (filter (\<lambda>t. strategy t = strategy_name slf \<and> tradingSymbol t = symbol
                          \<and> direction t = LONG
                          \<and> (case entryOrder t of
                                None \<Rightarrow> False
                              | Some ord \<Rightarrow> orderStatus ord = COMPLETE \<and> 0 < order_filledQty ord))
               trades)"

text \<open>
  The averaging rows in the order of the final frame: one row per held symbol,
  filtered by \<open>ChangePct <= averaging_pct\<close>, sorted by \<open>ChangePct\<close>, then filtered by
  \<open>AvgCount < max_averaging_per_stock\<close>. pandas does not promise the order of rows
  with equal \<open>ChangePct\<close>; the model keeps them in the order of the symbols.
\<close>

definition averaging_frame ::
  "self \<Rightarrow> (symbol \<Rightarrow> real option) \<Rightarrow> trade list \<Rightarrow> holding_row list \<Rightarrow> holding_row list" where
  "averaging_frame slf get_cmp trades rows =
     filter (\<lambda>r. int (current_averaging_count slf trades (row_Symbol r)) < max_averaging_per_stock slf)
       (sort_key (\<lambda>r. sort_pos (ChangePct get_cmp r))
          (filter (\<lambda>r. np_le_real (ChangePct get_cmp r) (averaging_pct slf))
             (latest_per_symbol rows)))"

record buy_orders =
  new_buys :: "symbol list"
  averaging_buy :: "symbol option"

text \<open>
  \<open>initiate_buy\<close>: the calls of \<open>place_new_trade\<close>, those of the first loop in
  \<open>new_buys\<close> and the one of the averaging step in \<open>averaging_buy\<close>.
\<close>

definition initiate_buy ::
  "self \<Rightarrow> (symbol \<Rightarrow> real option) \<Rightarrow> trade list \<Rightarrow> symbol list \<Rightarrow> error + buy_orders" where
  "initiate_buy slf get_cmp trades stock_list =
     (let bought = new_buys_loop slf trades stock_list [] in
      if 0 < length bought then Inr \<lparr>new_buys = bought, averaging_buy = None\<rparr>
      else (case holdings slf trades of
              Inl e \<Rightarrow> Inl e
            | Inr hs \<Rightarrow>
                (let rows = map row_of hs in
                 if rows = [] then Inr \<lparr>new_buys = [], averaging_buy = None\<rparr>
                 else (case averaging_frame slf get_cmp trades rows of
                         [] \<Rightarrow> Inr \<lparr>new_buys = [], averaging_buy = None\<rparr>
                       | r # rs \<Rightarrow> Inr \<lparr>new_buys = [], averaging_buy = Some (row_Symbol r)\<rparr>))))"

section \<open>One decision cycle\<close>

text \<open>
  \<open>execute_strategy\<close>: the sell pass, then (after a pause) the screening and, unless
  it returned nothing or an empty list, the buy pass. \<open>TradeManager.trades\<close> belongs to
  the platform, whose \<open>square_off_trade\<close> acts on it in between: the ledger as the sell
  pass reads it and the ledger as the buy pass reads it are both inputs, as is the
  universe that \<open>get_universe_instruments\<close> stores in \<open>self.symbols\<close>. The result is what
  was sold and, when the buy pass ran, its orders.
\<close>

definition execute_strategy ::
  "self \<Rightarrow> (real \<Rightarrow> real) \<Rightarrow> (symbol \<Rightarrow> real option) \<Rightarrow> (symbol \<Rightarrow> fetched) \<Rightarrow> symbol list
     \<Rightarrow> trade list \<Rightarrow> trade list
     \<Rightarrow> error + ((symbol \<times> real \<times> trade list) list \<times> buy_orders option)" where
  "execute_strategy slf round_off_price get_cmp hist symbols trades trades_after_sell =
     (case initiate_sell slf round_off_price get_cmp trades of
        Inl e \<Rightarrow> Inl e
      | Inr sold \<Rightarrow>
          (case get_eligible_stocks_for_today hist symbols of
             Inl e \<Rightarrow> Inl e
           | Inr None \<Rightarrow> Inr (sold, None)
           | Inr (Some []) \<Rightarrow> Inr (sold, None)
           | Inr (Some stock_list) \<Rightarrow>
               (case initiate_buy slf get_cmp trades_after_sell stock_list of
                  Inl e \<Rightarrow> Inl e
                | Inr orders \<Rightarrow> Inr (sold, Some orders))))"

section \<open>The dashboard's buy and averaging recommendations (app.py)\<close>

text \<open>
  A row of the uploaded holdings: the \<open>Symbol\<close> and \<open>Entry\<close> cells (an empty cell
  is NaN).
\<close>

record holding =
  held_Symbol :: symbol
  Entry :: "real option"

datatype decision =
    BUY symbol
  | AVERAGE symbol npfloat
  | HOLD_no_candidates
  | HOLD_no_recommendations

fun app_new_buys :: "int \<Rightarrow> symbol list \<Rightarrow> screen_row list \<Rightarrow> symbol list \<Rightarrow> symbol list" where
  "app_new_buys max_buys held_symbols [] bought = bought"
| "app_new_buys max_buys held_symbols (row # rest) bought =
     (if Symbol row \<notin> set held_symbols \<and> int (length bought) < max_buys
      then app_new_buys max_buys held_symbols rest (bought @ [Symbol row])
      else app_new_buys max_buys held_symbols rest bought)"

text \<open>The loop over the holdings that fills \<open>potential_avg\<close>.\<close>

fun potential_avg :: "real \<Rightarrow> screen_row list \<Rightarrow> holding list \<Rightarrow> (symbol \<times> npfloat) list" where
  "potential_avg avg_pct eligible [] = []"
| "potential_avg avg_pct eligible (row # rest) =
     (case filter (\<lambda>e. Symbol e = held_Symbol row) eligible of
        [] \<Rightarrow> potential_avg avg_pct eligible rest
      | cmp_row # _ \<Rightarrow>
          (let change_pct = pct_diff (Some (CMP cmp_row)) (Entry row)
           in if np_le_real change_pct avg_pct
              then (held_Symbol row, change_pct) # potential_avg avg_pct eligible rest
              else potential_avg avg_pct eligible rest))"

text \<open>
  The "Buy/Average Logic" block of the main page: \<open>eligible\<close> is the screened table,
  \<open>holdings_df\<close> the active holdings of the upload.
\<close>

definition buy_decisions :: "real \<Rightarrow> int \<Rightarrow> screen_row list \<Rightarrow> holding list \<Rightarrow> decision list" where
  "buy_decisions avg_pct max_buys eligible holdings_df =
     (let held_symbols = map held_Symbol holdings_df;
          bought = app_new_buys max_buys held_symbols eligible [];
          averaging =
            (if length bought = 0 \<and> eligible \<noteq> [] \<and> holdings_df \<noteq> []
             then (case sort_key (\<lambda>p. sort_pos (snd p)) (potential_avg avg_pct eligible holdings_df) of
                     [] \<Rightarrow> [HOLD_no_candidates]
                   | p # _ \<Rightarrow> [AVERAGE (fst p) (snd p)])
             else []);
          decisions = map BUY bought @ averaging
      in if decisions = [] then [HOLD_no_recommendations] else decisions)"


section \<open>Notions the properties are stated with\<close>

text \<open>A float below zero.\<close>

fun np_negative :: "npfloat \<Rightarrow> bool" where
  "np_negative NegInf = True"
| "np_negative (Fin x) = (x < 0)"
| "np_negative v = False"

text \<open>
  A symbol the strategy's screening cannot use: the fetch raised, returned nothing or
  an empty frame, the frame has no Close column, or the moving average of its last row
  is NaN. For the dashboard the same, on what its \<open>get_historical_data\<close> returns.
\<close>

definition unusable :: "(symbol \<Rightarrow> fetched) \<Rightarrow> symbol \<Rightarrow> bool" where
  "unusable hist s =
     (case hist s of
        Raises \<Rightarrow> True
      | Returned None \<Rightarrow> True
      | Returned (Some df) \<Rightarrow> df_empty df \<or> \<not> has_Close df \<or> latest_dma df = None)"

definition app_unusable :: "(symbol \<Rightarrow> fetched) \<Rightarrow> symbol \<Rightarrow> bool" where
  "app_unusable download s =
     (case get_historical_data download s of
        None \<Rightarrow> True
      | Some df \<Rightarrow> \<not> has_Close df \<or> latest_dma df = None)"

section \<open>Sample data\<close>

text \<open>Twenty trading days: nineteen closes at \<open>base\<close>, then the latest close.\<close>

definition sample_frame :: "real \<Rightarrow> real \<Rightarrow> frame" where
  "sample_frame base lastc =
     \<lparr>has_Close = True,
      index_rows = map (\<lambda>i. (int i, Some base)) [0..<19] @ [(19, Some lastc)]\<rparr>"

definition sample_hist :: "symbol \<Rightarrow> fetched" where
  "sample_hist s =
     (if s = ''S1'' then Returned (Some (sample_frame 100 98))
      else if s = ''S2'' then Returned (Some (sample_frame 100 80))
      else if s = ''S3'' then Returned (Some (sample_frame 100 90))
      else if s = ''S4'' then Returned (Some (sample_frame 100 60))
      else if s = ''S5'' then Returned (Some (sample_frame 100 70))
      else if s = ''S6'' then Returned (Some (sample_frame 100 95))
      else if s = ''UP'' then Returned (Some (sample_frame 100 120))
      else if s = ''NONE'' then Returned None
      else Raises)"

definition sample_universe :: "symbol list" where
  "sample_universe = [''S1'', ''S2'', ''BAD'', ''S3'', ''UP'', ''S4'', ''S5'', ''S6'', ''NONE'']"

text \<open>Two symbols with the same price history.\<close>

definition tie_hist :: "symbol \<Rightarrow> fetched" where
  "tie_hist s = Returned (Some (sample_frame 100 80))"

section \<open>Notions the properties of the passes are stated with\<close>

text \<open>
  A matching trade: of this strategy, active, without a target order, its entry order
  complete and filled. It is the filter of both passes without the exception.
\<close>

definition active_filled :: "self \<Rightarrow> trade \<Rightarrow> bool" where
  "active_filled slf t =
     (strategy t = strategy_name slf \<and> tradeState t = ''active'' \<and> targetOrder t = None
      \<and> (case entryOrder t of
            None \<Rightarrow> False
          | Some ord \<Rightarrow> orderStatus ord = COMPLETE \<and> 0 < order_filledQty ord))"

definition matching_trades :: "self \<Rightarrow> trade list \<Rightarrow> symbol \<Rightarrow> trade list" where
  "matching_trades slf trades s =
     filter (\<lambda>t. active_filled slf t \<and> tradingSymbol t = s) trades"




text \<open>
  The last buy of a held symbol: the first of its matching trades with the greatest
  creation timestamp.
\<close>

definition last_buy :: "self \<Rightarrow> trade list \<Rightarrow> symbol \<Rightarrow> holding_row option" where
  "last_buy slf trades s =
     (case map row_of (matching_trades slf trades s) of
        [] \<Rightarrow> None
      | g # gs \<Rightarrow> Some (idxmax_Date g gs))"

text \<open>
  An averaging candidate: a held symbol whose change from the last buy price to the
  current price, rounded to two decimals, is at most \<open>averaging_pct\<close> and whose
  averaging count is below the cap. \<open>candidate_change\<close> is that change.
\<close>

definition candidate_change ::
  "self \<Rightarrow> (symbol \<Rightarrow> real option) \<Rightarrow> trade list \<Rightarrow> symbol \<Rightarrow> npfloat" where
  "candidate_change slf get_cmp trades s =
     (case last_buy slf trades s of None \<Rightarrow> NaN | Some r \<Rightarrow> ChangePct get_cmp r)"

definition averaging_candidate ::
  "self \<Rightarrow> (symbol \<Rightarrow> real option) \<Rightarrow> trade list \<Rightarrow> symbol \<Rightarrow> bool" where
  "averaging_candidate slf get_cmp trades s =
     (matching_trades slf trades s \<noteq> []
      \<and> np_le_real (candidate_change slf get_cmp trades s) (averaging_pct slf)
      \<and> int (current_averaging_count slf trades s) < max_averaging_per_stock slf)"

section \<open>A sample ledger\<close>

definition sample_self :: self where
  "sample_self =
     \<lparr>strategy_name = ''Aditi'', target_pct = 5, averaging_pct = - 5, max_buys_per_day = 1,
      max_sells_per_day = 1, max_averaging_per_stock = 3\<rparr>"

text \<open>An active long trade of the strategy, filled at \<open>price\<close> for \<open>qty\<close> shares.\<close>

definition filled_trade :: "symbol \<Rightarrow> real \<Rightarrow> int \<Rightarrow> int \<Rightarrow> trade" where
  "filled_trade s price qty ts =
     \<lparr>strategy = ''Aditi'', tradingSymbol = s, tradeState = ''active'', direction = LONG,
      entry = price, filledQty = qty, createTimestamp = ts, targetOrder = None,
      entryOrder = Some \<lparr>orderStatus = COMPLETE, order_filledQty = qty\<rparr>\<rparr>"

text \<open>
  A platform round-off to two decimals, to the nearest with a half to the even
  neighbour, for the samples; the sell pass logs its percentage with two decimals.
\<close>

definition round_off_2 :: "real \<Rightarrow> real" where
  "round_off_2 x = of_int (rint (x * 100)) / 100"

text \<open>
  Holdings for the sell pass: B at 200, A bought at 100 and at 90, C at 50, D at 10
  without a quote. At the quotes below A stands at 8 percent, B at 6, C at 2.
\<close>

definition sell_ledger :: "trade list" where
  "sell_ledger =
     [filled_trade ''B'' 200 5 1, filled_trade ''A'' 100 10 2, filled_trade ''C'' 50 4 3,
      filled_trade ''A'' 90 10 4, filled_trade ''D'' 10 1 5]"

definition sell_quotes :: "symbol \<Rightarrow> real option" where
  "sell_quotes s =
     (if s = ''A'' then Some (513 / 5) else if s = ''B'' then Some 212
      else if s = ''C'' then Some 51 else None)"

text \<open>
  Holdings for the averaging step: X bought at 1000 and later at 900, Y at 500, Z three
  times at 100. At the quotes below X is down 5.56 percent from its last buy, Y down 6,
  Z down 50.
\<close>

definition avg_ledger :: "trade list" where
  "avg_ledger =
     [filled_trade ''X'' 1000 1 1, filled_trade ''Z'' 100 1 2, filled_trade ''Y'' 500 1 3,
      filled_trade ''Z'' 100 1 4, filled_trade ''X'' 900 1 5, filled_trade ''Z'' 100 1 6]"

definition avg_quotes :: "symbol \<Rightarrow> real option" where
  "avg_quotes s =
     (if s = ''X'' then Some 850 else if s = ''Y'' then Some 470
      else if s = ''Z'' then Some 50 else None)"




text \<open>
  A screened table with the one symbol S4 (quoted at 60), and uploaded holdings of H
  bought at 1000 and of S4 bought at 100.
\<close>

definition dash_table :: "screen_row list" where
  "dash_table = [\<lparr>Symbol = ''S4'', Deviation = Fin (- (1900 / 49)), CMP = 60, DMA20 = 98\<rparr>]"

definition dash_holdings :: "holding list" where
  "dash_holdings =
     [\<lparr>held_Symbol = ''H'', Entry = Some 1000\<rparr>, \<lparr>held_Symbol = ''S4'', Entry = Some 100\<rparr>]"

text \<open>The dashboard's table for the sample universe.\<close>

definition sample_table :: "screen_row list" where
  "sample_table =
     [\<lparr>Symbol = ''S4'', Deviation = Fin (- (1900 / 49)), CMP = 60, DMA20 = 98\<rparr>,
      \<lparr>Symbol = ''S5'', Deviation = Fin (- (5700 / 197)), CMP = 70, DMA20 = 197 / 2\<rparr>,
      \<lparr>Symbol = ''S2'', Deviation = Fin (- (1900 / 99)), CMP = 80, DMA20 = 99\<rparr>,
      \<lparr>Symbol = ''S3'', Deviation = Fin (- (1900 / 199)), CMP = 90, DMA20 = 199 / 2\<rparr>,
      \<lparr>Symbol = ''S6'', Deviation = Fin (- (100 / 21)), CMP = 95, DMA20 = 399 / 4\<rparr>]"

section \<open>Lemmas on floats, sorting and the screening loop\<close>

lemma sort_pos_le_iff: "a \<noteq> NaN \<Longrightarrow> b \<noteq> NaN \<Longrightarrow> sort_pos a \<le> sort_pos b \<longleftrightarrow> np_le a b"
  by (cases a; cases b) simp_all

lemma sort_pos_inj: "inj sort_pos"
proof (rule injI)
  fix a b show "sort_pos a = sort_pos b \<Longrightarrow> a = b" by (cases a; cases b) simp_all
qed

lemma set_map_filter: "set (List.map_filter f xs) = {y. \<exists>x \<in> set xs. f x = Some y}"
  by (induction xs) (auto simp: List.map_filter_simps split: option.splits)

lemma mset_map_filter: "mset xs = mset ys \<Longrightarrow> mset (List.map_filter f xs) = mset (List.map_filter f ys)"
proof -
  assume eq: "mset xs = mset ys"
  have "mset (List.map_filter f zs) = image_mset (the \<circ> f) (filter_mset (\<lambda>x. f x \<noteq> None) (mset zs))" for zs
    by (simp add: List.map_filter_def)
  with eq show ?thesis by simp
qed

lemma take_sort_key_least:
  assumes "x \<in> set (take n (sort_key f xs))" "y \<in> set xs" "y \<notin> set (take n (sort_key f xs))"
  shows "f x \<le> f y"
proof -
  let ?zs = "sort_key f xs"
  have s: "sorted (map f (take n ?zs @ drop n ?zs))" by simp
  have "y \<in> set ?zs" using assms(2) by simp
  then have "y \<in> set (take n ?zs) \<union> set (drop n ?zs)" by (metis append_take_drop_id set_append)
  then have "y \<in> set (drop n ?zs)" using assms(3) by blast
  with s assms(1) show ?thesis unfolding map_append sorted_append by auto
qed

lemma sorted_take_sort_key: "sorted (map f (take n (sort_key f xs)))"
  by (simp add: take_map[symmetric] sorted_wrt_take)

lemma in_take_sort_keyD: "x \<in> set (take n (sort_key f xs)) \<Longrightarrow> x \<in> set xs"
  using set_take_subset[of n "sort_key f xs"] by auto

lemma sorted_wrt_np_le:
  assumes "sorted (map (\<lambda>x. sort_pos (g x)) xs)" "\<forall>x \<in> set xs. g x \<noteq> NaN"
  shows "sorted_wrt np_le (map g xs)"
proof -
  have "sorted_wrt (\<lambda>x y. sort_pos (g x) \<le> sort_pos (g y)) xs"
    using assms(1) by (simp add: sorted_wrt_map)
  then have "sorted_wrt (\<lambda>x y. np_le (g x) (g y)) xs"
    by (rule sorted_wrt_mono_rel[rotated]) (use assms(2) in \<open>simp add: sort_pos_le_iff\<close>)
  then show ?thesis by (simp add: sorted_wrt_map)
qed

lemma screen_loop_eq: "screen_loop hist ss acc = acc @ List.map_filter (kept hist) ss"
  by (induction ss arbitrary: acc)
     (auto simp: kept_def List.map_filter_simps split: sum.splits option.splits)

lemma app_screen_loop_eq: "app_screen_loop d ss acc = acc @ List.map_filter (app_kept d) ss"
  by (induction ss arbitrary: acc)
     (auto simp: app_kept_def List.map_filter_simps split: sum.splits option.splits)

text \<open>What a kept result says about the symbol's data.\<close>

lemma kept_SomeD:
  assumes "kept hist s = Some (s', d)"
  shows "s' = s \<and> (\<exists>df c m. hist s = Returned (Some df) \<and> \<not> df_empty df \<and> has_Close df
            \<and> latest_close df = Some c \<and> latest_dma df = Some m \<and> c < m
            \<and> d = pct_diff (Some c) (Some m))"
  using assms
  by (auto simp: kept_def screen_symbol_def np_less_def Let_def
           split: sum.splits option.splits fetched.splits if_splits)

lemma pct_diff_below:
  assumes "c < m"
  shows "pct_diff (Some c) (Some m) \<noteq> NaN"
    and "0 \<le> m \<Longrightarrow> np_negative (pct_diff (Some c) (Some m))"
proof -
  show "pct_diff (Some c) (Some m) \<noteq> NaN"
    using assms by (simp add: pct_diff_def)
  show "np_negative (pct_diff (Some c) (Some m))" if "0 \<le> m"
  proof (cases "m = 0")
    case True
    with assms show ?thesis by (simp add: pct_diff_def)
  next
    case False
    with that have "0 < m" by simp
    with assms have "(c - m) / m < 0" by (simp add: divide_neg_pos)
    then have "(c - m) / m * 100 < 0" by (rule mult_neg_pos) simp
    with False show ?thesis by (simp add: pct_diff_def del: times_divide_eq_left)
  qed
qed

lemma app_kept_SomeD:
  assumes "app_kept d s = Some r"
  shows "Symbol r = s \<and> (\<exists>df. get_historical_data d s = Some df \<and> \<not> df_empty df \<and> has_Close df
            \<and> 20 \<le> length (index_rows df)
            \<and> latest_close df = Some (CMP r) \<and> latest_dma df = Some (DMA20 r) \<and> CMP r < DMA20 r
            \<and> Deviation r = pct_diff (Some (CMP r)) (Some (DMA20 r)))"
  using assms
  by (auto simp: app_kept_def app_screen_symbol_def
           split: sum.splits option.splits if_splits)

lemma results_not_NaN: "x \<in> set (screen_loop hist ss []) \<Longrightarrow> snd x \<noteq> NaN"
proof -
  assume "x \<in> set (screen_loop hist ss [])"
  then obtain s where "kept hist s = Some x"
    by (auto simp: screen_loop_eq set_map_filter)
  then show ?thesis
    using kept_SomeD[of hist s "fst x" "snd x"] pct_diff_below(1) by (metis prod.collapse)
qed

lemma app_results_not_NaN: "r \<in> set (app_screen_loop d ss []) \<Longrightarrow> Deviation r \<noteq> NaN"
proof -
  assume "r \<in> set (app_screen_loop d ss [])"
  then obtain s where "app_kept d s = Some r"
    by (auto simp: app_screen_loop_eq set_map_filter)
  then show ?thesis
    using app_kept_SomeD[of d s r] pct_diff_below(1) by metis
qed

lemma app_get_eligible_eq:
  "app_get_eligible_stocks_for_today d (Some ss) =
     Inr (take 5 (sort_key (\<lambda>r. sort_pos (Deviation r)) (app_screen_loop d ss [])))"
  by (simp add: app_get_eligible_stocks_for_today_def Let_def)

subsection \<open>The sample universe\<close>

lemma sample_frame_latest:
  "latest_close (sample_frame b l) = Some l"
  "latest_dma (sample_frame b l) = Some ((19 * b + l) / 20)"
  "\<not> df_empty (sample_frame b l)" "has_Close (sample_frame b l)"
  by (simp_all add: latest_close_def latest_dma_def sample_frame_def rolling_mean_last_def
        sorted_closes_def df_empty_def upt_rec)

lemma kept_sample:
  "hist s = Returned (Some (sample_frame b l)) \<Longrightarrow>
   kept hist s =
     (if l < (19 * b + l) / 20 then Some (s, pct_diff (Some l) (Some ((19 * b + l) / 20)))
      else None)"
  by (simp add: kept_def screen_symbol_def sample_frame_latest np_less_def)

lemma kept_sample_hist:
  "kept sample_hist ''S1'' = Some (''S1'', Fin (- (1900 / 999)))"
  "kept sample_hist ''S2'' = Some (''S2'', Fin (- (1900 / 99)))"
  "kept sample_hist ''S3'' = Some (''S3'', Fin (- (1900 / 199)))"
  "kept sample_hist ''S4'' = Some (''S4'', Fin (- (1900 / 49)))"
  "kept sample_hist ''S5'' = Some (''S5'', Fin (- (5700 / 197)))"
  "kept sample_hist ''S6'' = Some (''S6'', Fin (- (100 / 21)))"
  "kept sample_hist ''UP'' = None"
  "kept sample_hist ''NONE'' = None"
  "kept sample_hist ''BAD'' = None"
          apply (simp add: kept_sample [of _ _ 100 98] sample_hist_def pct_diff_def)
         apply (simp add: kept_sample [of _ _ 100 80] sample_hist_def pct_diff_def)
        apply (simp add: kept_sample [of _ _ 100 90] sample_hist_def pct_diff_def)
       apply (simp add: kept_sample [of _ _ 100 60] sample_hist_def pct_diff_def)
      apply (simp add: kept_sample [of _ _ 100 70] sample_hist_def pct_diff_def)
     apply (simp add: kept_sample [of _ _ 100 95] sample_hist_def pct_diff_def)
    apply (simp add: kept_sample [of _ _ 100 120] sample_hist_def pct_diff_def)
   apply (simp add: kept_def screen_symbol_def sample_hist_def)
  apply (simp add: kept_def screen_symbol_def sample_hist_def)
  done

lemma sample_results:
  "screen_loop sample_hist sample_universe [] =
     [(''S1'', Fin (- (1900 / 999))), (''S2'', Fin (- (1900 / 99))), (''S3'', Fin (- (1900 / 199))),
      (''S4'', Fin (- (1900 / 49))), (''S5'', Fin (- (5700 / 197))), (''S6'', Fin (- (100 / 21)))]"
  by (simp add: sample_universe_def screen_loop_eq List.map_filter_simps kept_sample_hist)

lemma sample_top_5:
  "top_5 (screen_loop sample_hist sample_universe []) =
     [(''S4'', Fin (- (1900 / 49))), (''S5'', Fin (- (5700 / 197))), (''S2'', Fin (- (1900 / 99))),
      (''S3'', Fin (- (1900 / 199))), (''S6'', Fin (- (100 / 21)))]"
  unfolding sample_results top_5_def by simp

lemma sample_get_eligible:
  "get_eligible_stocks_for_today sample_hist sample_universe =
     Inr (Some [''S4'', ''S5'', ''S2'', ''S3'', ''S6''])"
  unfolding get_eligible_stocks_for_today_def sample_top_5 by (simp add: sample_universe_def)

lemma map_filter_skip:
  "f bad = None \<Longrightarrow> List.map_filter f xs = List.map_filter f (filter (\<lambda>s. s \<noteq> bad) xs)"
  by (induction xs) (auto simp: List.map_filter_simps split: option.splits)

lemma map_filter_all_None: "\<forall>x \<in> set xs. f x = None \<Longrightarrow> List.map_filter f xs = []"
  by (induction xs) (auto simp: List.map_filter_simps)

lemma unusable_kept: "unusable hist s \<Longrightarrow> kept hist s = None"
  by (auto simp: unusable_def kept_def screen_symbol_def split: fetched.splits option.splits)

lemma app_unusable_kept: "app_unusable d s \<Longrightarrow> app_kept d s = None"
  by (auto simp: app_unusable_def app_kept_def app_screen_symbol_def split: option.splits)

lemma app_sample_loop:
  "app_screen_loop sample_hist sample_universe []
     = [\<lparr>Symbol = ''S1'', Deviation = Fin (- (1900 / 999)), CMP = 98, DMA20 = 999 / 10\<rparr>,
        \<lparr>Symbol = ''S2'', Deviation = Fin (- (1900 / 99)), CMP = 80, DMA20 = 99\<rparr>,
        \<lparr>Symbol = ''S3'', Deviation = Fin (- (1900 / 199)), CMP = 90, DMA20 = 199 / 2\<rparr>,
        \<lparr>Symbol = ''S4'', Deviation = Fin (- (1900 / 49)), CMP = 60, DMA20 = 98\<rparr>,
        \<lparr>Symbol = ''S5'', Deviation = Fin (- (5700 / 197)), CMP = 70, DMA20 = 197 / 2\<rparr>,
        \<lparr>Symbol = ''S6'', Deviation = Fin (- (100 / 21)), CMP = 95, DMA20 = 399 / 4\<rparr>]"
  by code_simp

lemma app_sample:
  "app_get_eligible_stocks_for_today sample_hist (Some sample_universe) = Inr sample_table"
  by code_simp

lemma app_dash_sample:
  "app_get_eligible_stocks_for_today sample_hist (Some [''S4'', ''H'']) = Inr dash_table"
  by code_simp

section \<open>Lemmas on the ledger filter and the sell pass\<close>

lemma holdings_InrD: "holdings slf ts = Inr hs \<Longrightarrow> hs = filter (active_filled slf) ts"
proof (induction ts arbitrary: hs)
  case Nil
  then show ?case by simp
next
  case (Cons t ts)
  then show ?case
    by (auto simp: is_holding_def active_filled_def split: sum.splits if_splits option.splits)
qed

lemma map_of_setdefault_append:
  "map_of (setdefault_append kvs t) =
     (map_of kvs)(tradingSymbol t \<mapsto>
        (case map_of kvs (tradingSymbol t) of None \<Rightarrow> [t] | Some g \<Rightarrow> g @ [t]))"
  by (induction kvs t rule: setdefault_append.induct) (auto simp: fun_eq_iff)

lemma keys_setdefault_append:
  "map fst (setdefault_append kvs t) =
     (if tradingSymbol t \<in> set (map fst kvs) then map fst kvs
      else map fst kvs @ [tradingSymbol t])"
  by (induction kvs t rule: setdefault_append.induct) auto

lemma distinct_groups: "distinct (map fst (foldl setdefault_append [] hs))"
  by (induction hs rule: rev_induct) (simp_all add: keys_setdefault_append)

lemma map_of_groups:
  "map_of (foldl setdefault_append [] hs) s =
     (if filter (\<lambda>t. tradingSymbol t = s) hs = [] then None
      else Some (filter (\<lambda>t. tradingSymbol t = s) hs))"
  by (induction hs rule: rev_induct) (auto simp: map_of_setdefault_append)

lemma in_groups_iff:
  "(s, g) \<in> set (foldl setdefault_append [] hs) \<longleftrightarrow>
     g = filter (\<lambda>t. tradingSymbol t = s) hs \<and> g \<noteq> []"
  using map_of_eq_Some_iff[OF distinct_groups, of hs s g] map_of_groups[of hs s]
  by (auto split: if_splits)

lemma symbol_trades_InrD:
  assumes "symbol_trades slf trades = Inr groups"
  shows "distinct (map fst groups)"
    and "(s, g) \<in> set groups \<longleftrightarrow> g = matching_trades slf trades s \<and> g \<noteq> []"
proof -
  from assms obtain hs where hs: "holdings slf trades = Inr hs"
    and groups: "groups = foldl setdefault_append [] hs"
    by (auto simp: symbol_trades_def split: sum.splits)
  have "filter (\<lambda>t. tradingSymbol t = s) (filter (active_filled slf) trades)
      = matching_trades slf trades s"
    by (simp add: matching_trades_def conj_commute)
  then show "(s, g) \<in> set groups \<longleftrightarrow> g = matching_trades slf trades s \<and> g \<noteq> []"
    unfolding groups in_groups_iff holdings_InrD[OF hs] by simp
  show "distinct (map fst groups)"
    unfolding groups by (rule distinct_groups)
qed


lemma pnl_formula:
  fixes q w c :: real
  assumes "q * w \<noteq> 0"
  shows "q * (c - w) * 100 / (q * w) = (c - w) / w * 100"
  using assms by (simp add: field_simps)




lemma sell_sample:
  "initiate_sell sample_self round_off_2 sell_quotes sell_ledger
     = Inr [(''A'', 8, [filled_trade ''A'' 100 10 2, filled_trade ''A'' 90 10 4])]"
  by code_simp


section \<open>Properties of the screening\<close>

text \<open>
  C3. For every universe and every price data, the screening returns at most five
  symbols (the \<open>K\<close> of both implementations is the constant 5), and they are in
  ascending order of deviation, most negative first: the deviations of the returned
  entries are sorted, and no entry left out has a deviation below that of a returned
  one. The strategy module returns the symbols of these entries (nothing for an empty
  universe), the dashboard the rows themselves.
\<close>

theorem screening_at_most_five_ascending:
  "(\<exists>r. get_eligible_stocks_for_today hist symbols = Inr r
        \<and> (r = None \<longrightarrow> symbols = [])
        \<and> (\<forall>out. r = Some out \<longrightarrow>
              length out \<le> 5 \<and> out = map fst (top_5 (screen_loop hist symbols []))))
   \<and> sorted_wrt np_le (map snd (top_5 (screen_loop hist symbols [])))
   \<and> (\<forall>x \<in> set (top_5 (screen_loop hist symbols [])).
        \<forall>y \<in> set (screen_loop hist symbols []).
          y \<notin> set (top_5 (screen_loop hist symbols [])) \<longrightarrow> np_le (snd x) (snd y))
   \<and> (\<exists>rows. app_get_eligible_stocks_for_today download (Some symbols) = Inr rows
        \<and> length rows \<le> 5
        \<and> sorted_wrt np_le (map Deviation rows)
        \<and> (\<forall>x \<in> set rows. \<forall>y \<in> set (app_screen_loop download symbols []).
              y \<notin> set rows \<longrightarrow> np_le (Deviation x) (Deviation y)))"
proof (intro conjI)
  let ?R = "screen_loop hist symbols []"
  let ?A = "app_screen_loop download symbols []"
  let ?rows = "take 5 (sort_key (\<lambda>r. sort_pos (Deviation r)) ?A)"
  show "\<exists>r. get_eligible_stocks_for_today hist symbols = Inr r
        \<and> (r = None \<longrightarrow> symbols = [])
        \<and> (\<forall>out. r = Some out \<longrightarrow> length out \<le> 5 \<and> out = map fst (top_5 ?R))"
    by (cases symbols) (simp_all add: get_eligible_stocks_for_today_def top_5_def)
  have in_R: "x \<in> set ?R" if "x \<in> set (top_5 ?R)" for x
    using that unfolding top_5_def by (rule in_take_sort_keyD)
  have "sorted (map (\<lambda>x. sort_pos (snd x)) (top_5 ?R))"
    unfolding top_5_def by (rule sorted_take_sort_key)
  then show "sorted_wrt np_le (map snd (top_5 ?R))"
    by (rule sorted_wrt_np_le) (use in_R results_not_NaN in blast)
  show "\<forall>x \<in> set (top_5 ?R). \<forall>y \<in> set ?R. y \<notin> set (top_5 ?R) \<longrightarrow> np_le (snd x) (snd y)"
  proof (intro ballI impI)
    fix x y assume x: "x \<in> set (top_5 ?R)" and y: "y \<in> set ?R" "y \<notin> set (top_5 ?R)"
    have "sort_pos (snd x) \<le> sort_pos (snd y)"
      using take_sort_key_least[of x 5 "\<lambda>x. sort_pos (snd x)" ?R y] x y
      unfolding top_5_def by simp
    then show "np_le (snd x) (snd y)"
      using results_not_NaN[OF in_R[OF x]] results_not_NaN[OF y(1)]
      by (simp add: sort_pos_le_iff)
  qed
  have in_A: "r \<in> set ?A" if "r \<in> set ?rows" for r
    using that by (rule in_take_sort_keyD)
  have sorted_rows: "sorted_wrt np_le (map Deviation ?rows)"
    by (rule sorted_wrt_np_le[OF sorted_take_sort_key]) (use in_A app_results_not_NaN in blast)
  have least: "np_le (Deviation x) (Deviation y)"
    if "x \<in> set ?rows" "y \<in> set ?A" "y \<notin> set ?rows" for x y
  proof -
    have "sort_pos (Deviation x) \<le> sort_pos (Deviation y)"
      using take_sort_key_least[of x 5 "\<lambda>r. sort_pos (Deviation r)" ?A y] that by simp
    then show ?thesis
      using app_results_not_NaN[OF in_A[OF that(1)]] app_results_not_NaN[OF that(2)]
      by (simp add: sort_pos_le_iff)
  qed
  show "\<exists>rows. app_get_eligible_stocks_for_today download (Some symbols) = Inr rows
        \<and> length rows \<le> 5
        \<and> sorted_wrt np_le (map Deviation rows)
        \<and> (\<forall>x \<in> set rows. \<forall>y \<in> set ?A. y \<notin> set rows \<longrightarrow> np_le (Deviation x) (Deviation y))"
    unfolding app_get_eligible_eq using sorted_rows least by auto
qed

theorem screening_at_most_five_ascending_witness:
  "get_eligible_stocks_for_today sample_hist sample_universe
     = Inr (Some [''S4'', ''S5'', ''S2'', ''S3'', ''S6''])
   \<and> (''S4'', Fin (- (1900 / 49))) \<in> set (top_5 (screen_loop sample_hist sample_universe []))
   \<and> (''S1'', Fin (- (1900 / 999))) \<in> set (screen_loop sample_hist sample_universe [])
   \<and> (''S1'', Fin (- (1900 / 999))) \<notin> set (top_5 (screen_loop sample_hist sample_universe []))
   \<and> np_le (Fin (- (1900 / 49))) (Fin (- (1900 / 999)))
   \<and> sorted_wrt np_le (map snd (top_5 (screen_loop sample_hist sample_universe [])))
   \<and> app_get_eligible_stocks_for_today sample_hist (Some sample_universe) = Inr sample_table
   \<and> length sample_table \<le> 5
   \<and> sorted_wrt np_le (map Deviation sample_table)"
proof -
  note inst = screening_at_most_five_ascending[of sample_hist sample_universe sample_hist]
  have a: "(''S4'', Fin (- (1900 / 49))) \<in> set (top_5 (screen_loop sample_hist sample_universe []))"
    by (simp add: sample_top_5)
  have b: "(''S1'', Fin (- (1900 / 999))) \<in> set (screen_loop sample_hist sample_universe [])"
    by (simp add: sample_results)
  have c: "(''S1'', Fin (- (1900 / 999))) \<notin> set (top_5 (screen_loop sample_hist sample_universe []))"
    by (simp add: sample_top_5)
  from inst a b c have d: "np_le (snd (''S4'', Fin (- (1900 / 49)))) (snd (''S1'', Fin (- (1900 / 999))))"
    by blast
  from inst have e: "sorted_wrt np_le (map snd (top_5 (screen_loop sample_hist sample_universe [])))"
    by blast
  from inst have f: "length sample_table \<le> 5 \<and> sorted_wrt np_le (map Deviation sample_table)"
    unfolding app_sample by blast
  from a b c d e f show ?thesis
    using sample_get_eligible app_sample by simp
qed

text \<open>
  C4. Every symbol the screening returns has a usable price history whose latest close
  is strictly below its latest 20-day moving average, so a symbol whose latest close
  is greater than or equal to that average is never returned; the deviation recorded
  for it is negative when the average is not negative, as an average of prices is.
  The same holds for every row of the dashboard's table.
\<close>

theorem screening_only_below_average:
  "(get_eligible_stocks_for_today hist symbols = Inr (Some out) \<longrightarrow>
      (\<forall>s \<in> set out. \<exists>df c m d.
          hist s = Returned (Some df) \<and> latest_close df = Some c \<and> latest_dma df = Some m
          \<and> c < m \<and> (s, d) \<in> set (top_5 (screen_loop hist symbols []))
          \<and> d = pct_diff (Some c) (Some m) \<and> (0 \<le> m \<longrightarrow> np_negative d))
      \<and> (\<forall>s df c m. hist s = Returned (Some df) \<and> latest_close df = Some c
            \<and> latest_dma df = Some m \<and> m \<le> c \<longrightarrow> s \<notin> set out))
   \<and> (app_get_eligible_stocks_for_today download (Some symbols) = Inr rows \<longrightarrow>
      (\<forall>r \<in> set rows. \<exists>df.
          get_historical_data download (Symbol r) = Some df
          \<and> latest_close df = Some (CMP r) \<and> latest_dma df = Some (DMA20 r)
          \<and> CMP r < DMA20 r \<and> Deviation r = pct_diff (Some (CMP r)) (Some (DMA20 r))
          \<and> (0 \<le> DMA20 r \<longrightarrow> np_negative (Deviation r)))
      \<and> (\<forall>s df c m. get_historical_data download s = Some df \<and> latest_close df = Some c
            \<and> latest_dma df = Some m \<and> m \<le> c \<longrightarrow> s \<notin> Symbol ` set rows))"
proof (intro conjI impI)
  assume out: "get_eligible_stocks_for_today hist symbols = Inr (Some out)"
  then have out_eq: "out = map fst (top_5 (screen_loop hist symbols []))"
    by (simp add: get_eligible_stocks_for_today_def split: if_splits)
  show fwd: "\<forall>s \<in> set out. \<exists>df c m d.
          hist s = Returned (Some df) \<and> latest_close df = Some c \<and> latest_dma df = Some m
          \<and> c < m \<and> (s, d) \<in> set (top_5 (screen_loop hist symbols []))
          \<and> d = pct_diff (Some c) (Some m) \<and> (0 \<le> m \<longrightarrow> np_negative d)"
  proof
    fix s assume "s \<in> set out"
    then obtain d where top: "(s, d) \<in> set (top_5 (screen_loop hist symbols []))"
      unfolding out_eq by auto
    then have "(s, d) \<in> set (screen_loop hist symbols [])"
      unfolding top_5_def by (rule in_take_sort_keyD)
    then obtain s0 where "kept hist s0 = Some (s, d)"
      by (auto simp: screen_loop_eq set_map_filter)
    from kept_SomeD[OF this] obtain df c m where
      "hist s = Returned (Some df)" "latest_close df = Some c" "latest_dma df = Some m"
      "c < m" "d = pct_diff (Some c) (Some m)"
      by auto
    with top pct_diff_below(2)[of c m] show "\<exists>df c m d.
          hist s = Returned (Some df) \<and> latest_close df = Some c \<and> latest_dma df = Some m
          \<and> c < m \<and> (s, d) \<in> set (top_5 (screen_loop hist symbols []))
          \<and> d = pct_diff (Some c) (Some m) \<and> (0 \<le> m \<longrightarrow> np_negative d)"
      by blast
  qed
  show "\<forall>s df c m. hist s = Returned (Some df) \<and> latest_close df = Some c
            \<and> latest_dma df = Some m \<and> m \<le> c \<longrightarrow> s \<notin> set out"
  proof (intro allI impI notI)
    fix s df c m
    assume h: "hist s = Returned (Some df) \<and> latest_close df = Some c
            \<and> latest_dma df = Some m \<and> m \<le> c" and "s \<in> set out"
    with fwd obtain df' c' m' where "hist s = Returned (Some df')" "latest_close df' = Some c'"
      "latest_dma df' = Some m'" "c' < m'" by blast
    with h show False by simp
  qed
next
  assume "app_get_eligible_stocks_for_today download (Some symbols) = Inr rows"
  then have rows: "rows = take 5 (sort_key (\<lambda>r. sort_pos (Deviation r)) (app_screen_loop download symbols []))"
    by (simp add: app_get_eligible_eq)
  have D: "\<exists>df. get_historical_data download (Symbol r) = Some df
          \<and> latest_close df = Some (CMP r) \<and> latest_dma df = Some (DMA20 r)
          \<and> CMP r < DMA20 r \<and> Deviation r = pct_diff (Some (CMP r)) (Some (DMA20 r))
          \<and> (0 \<le> DMA20 r \<longrightarrow> np_negative (Deviation r))" if "r \<in> set rows" for r
  proof -
    from that have "r \<in> set (app_screen_loop download symbols [])"
      unfolding rows by (rule in_take_sort_keyD)
    then obtain s where "app_kept download s = Some r"
      by (auto simp: app_screen_loop_eq set_map_filter)
    from app_kept_SomeD[OF this] pct_diff_below(2)[of "CMP r" "DMA20 r"]
    show ?thesis by auto
  qed
  then show "\<forall>r \<in> set rows. \<exists>df.
          get_historical_data download (Symbol r) = Some df
          \<and> latest_close df = Some (CMP r) \<and> latest_dma df = Some (DMA20 r)
          \<and> CMP r < DMA20 r \<and> Deviation r = pct_diff (Some (CMP r)) (Some (DMA20 r))
          \<and> (0 \<le> DMA20 r \<longrightarrow> np_negative (Deviation r))"
    by blast
  show "\<forall>s df c m. get_historical_data download s = Some df \<and> latest_close df = Some c
            \<and> latest_dma df = Some m \<and> m \<le> c \<longrightarrow> s \<notin> Symbol ` set rows"
  proof (intro allI impI notI)
    fix s df c m
    assume h: "get_historical_data download s = Some df \<and> latest_close df = Some c
            \<and> latest_dma df = Some m \<and> m \<le> c" and "s \<in> Symbol ` set rows"
    then obtain r where "r \<in> set rows" "Symbol r = s" by auto
    with D[of r] h show False by auto
  qed
qed
theorem screening_only_below_average_witness:
  "get_eligible_stocks_for_today sample_hist sample_universe
     = Inr (Some [''S4'', ''S5'', ''S2'', ''S3'', ''S6''])
   \<and> (\<exists>d. sample_hist ''S4'' = Returned (Some (sample_frame 100 60))
          \<and> latest_close (sample_frame 100 60) = Some 60
          \<and> latest_dma (sample_frame 100 60) = Some 98
          \<and> (''S4'', d) \<in> set (top_5 (screen_loop sample_hist sample_universe []))
          \<and> np_negative d)
   \<and> sample_hist ''UP'' = Returned (Some (sample_frame 100 120))
   \<and> latest_close (sample_frame 100 120) = Some 120
   \<and> latest_dma (sample_frame 100 120) = Some 101
   \<and> ''UP'' \<notin> set [''S4'', ''S5'', ''S2'', ''S3'', ''S6'']
   \<and> app_get_eligible_stocks_for_today sample_hist (Some sample_universe) = Inr sample_table
   \<and> \<lparr>Symbol = ''S4'', Deviation = Fin (- (1900 / 49)), CMP = 60, DMA20 = 98\<rparr>
        \<in> set sample_table
   \<and> (60::real) < 98 \<and> np_negative (Fin (- (1900 / 49)))"
proof -
  note inst = screening_only_below_average[of sample_hist sample_universe
      "[''S4'', ''S5'', ''S2'', ''S3'', ''S6'']" sample_hist sample_table]
  have s4: "sample_hist ''S4'' = Returned (Some (sample_frame 100 60))"
    and up: "sample_hist ''UP'' = Returned (Some (sample_frame 100 120))"
    by (simp_all add: sample_hist_def)
  have l: "latest_close (sample_frame 100 60) = Some 60" "latest_dma (sample_frame 100 60) = Some 98"
    "latest_close (sample_frame 100 120) = Some 120" "latest_dma (sample_frame 100 120) = Some 101"
    by (simp_all add: sample_frame_latest)
  from inst sample_get_eligible obtain df c m d where
    "sample_hist ''S4'' = Returned (Some df)" "latest_dma df = Some m"
    "(''S4'', d) \<in> set (top_5 (screen_loop sample_hist sample_universe []))"
    "0 \<le> m \<longrightarrow> np_negative d"
    by force
  with s4 l have "\<exists>d. (''S4'', d) \<in> set (top_5 (screen_loop sample_hist sample_universe []))
          \<and> np_negative d"
    by auto
  moreover from inst sample_get_eligible up l
  have "''UP'' \<notin> set [''S4'', ''S5'', ''S2'', ''S3'', ''S6'']"
    by simp
  moreover have row: "\<lparr>Symbol = ''S4'', Deviation = Fin (- (1900 / 49)), CMP = 60, DMA20 = 98\<rparr>
        \<in> set sample_table"
    by (simp add: sample_table_def)
  moreover from inst app_sample row
  have "CMP \<lparr>Symbol = ''S4'', Deviation = Fin (- (1900 / 49)), CMP = 60, DMA20 = 98\<rparr>
      < DMA20 \<lparr>Symbol = ''S4'', Deviation = Fin (- (1900 / 49)), CMP = 60, DMA20 = 98\<rparr>"
    by blast
  ultimately show ?thesis
    using s4 up l sample_get_eligible app_sample by simp
qed

subsection \<open>Failures of single symbols\<close>

text \<open>
  On a universe that is a list, both implementations return a result for every
  outcome of the fetches. A symbol whose fetch raises, whose data is missing or empty,
  that has no Close column or whose moving average is NaN is skipped and changes
  nothing else: the results are those of the universe without that symbol, and it is
  not among them. When every symbol is unusable the result is the empty one (nothing
  at all for an empty universe in the strategy module), and on such a result the
  decision cycle ends after the sell pass without a buy and without an error.
\<close>

lemma unusable_symbols_are_skipped:
  "(\<exists>r. get_eligible_stocks_for_today hist symbols = Inr r)
   \<and> (\<exists>rows. app_get_eligible_stocks_for_today download (Some symbols) = Inr rows)
   \<and> (unusable hist bad \<longrightarrow>
        screen_loop hist symbols [] = screen_loop hist (filter (\<lambda>s. s \<noteq> bad) symbols) []
        \<and> (\<forall>out. get_eligible_stocks_for_today hist symbols = Inr (Some out) \<longrightarrow>
              bad \<notin> set out
              \<and> out = map fst (top_5 (screen_loop hist (filter (\<lambda>s. s \<noteq> bad) symbols) []))))
   \<and> (app_unusable download bad \<longrightarrow>
        app_get_eligible_stocks_for_today download (Some symbols)
          = app_get_eligible_stocks_for_today download (Some (filter (\<lambda>s. s \<noteq> bad) symbols))
        \<and> (\<forall>rows. app_get_eligible_stocks_for_today download (Some symbols) = Inr rows \<longrightarrow>
              bad \<notin> Symbol ` set rows))
   \<and> ((\<forall>s \<in> set symbols. unusable hist s) \<longrightarrow>
        get_eligible_stocks_for_today hist symbols = Inr (if symbols = [] then None else Some []))
   \<and> ((\<forall>s \<in> set symbols. app_unusable download s) \<longrightarrow>
        app_get_eligible_stocks_for_today download (Some symbols) = Inr [])
   \<and> ((get_eligible_stocks_for_today hist symbols = Inr None
         \<or> get_eligible_stocks_for_today hist symbols = Inr (Some []))
        \<and> initiate_sell slf round_off_price get_cmp trades = Inr sold \<longrightarrow>
        execute_strategy slf round_off_price get_cmp hist symbols trades trades_after_sell
          = Inr (sold, None))"
proof (intro conjI impI)
  show "\<exists>r. get_eligible_stocks_for_today hist symbols = Inr r"
    by (simp add: get_eligible_stocks_for_today_def)
  show "\<exists>rows. app_get_eligible_stocks_for_today download (Some symbols) = Inr rows"
    by (simp add: app_get_eligible_eq)
next
  assume "unusable hist bad"
  then have bad: "kept hist bad = None"
    by (rule unusable_kept)
  show eq: "screen_loop hist symbols [] = screen_loop hist (filter (\<lambda>s. s \<noteq> bad) symbols) []"
    by (simp add: screen_loop_eq map_filter_skip[of "kept hist" bad symbols, OF bad])
  show "\<forall>out. get_eligible_stocks_for_today hist symbols = Inr (Some out) \<longrightarrow>
          bad \<notin> set out
          \<and> out = map fst (top_5 (screen_loop hist (filter (\<lambda>s. s \<noteq> bad) symbols) []))"
  proof (intro allI impI conjI)
    fix out assume "get_eligible_stocks_for_today hist symbols = Inr (Some out)"
    then have out: "out = map fst (top_5 (screen_loop hist symbols []))"
      by (simp add: get_eligible_stocks_for_today_def split: if_splits)
    then show "out = map fst (top_5 (screen_loop hist (filter (\<lambda>s. s \<noteq> bad) symbols) []))"
      using eq by simp
    show "bad \<notin> set out"
    proof
      assume "bad \<in> set out"
      then obtain d where "(bad, d) \<in> set (top_5 (screen_loop hist symbols []))"
        unfolding out by auto
      then have "(bad, d) \<in> set (screen_loop hist symbols [])"
        unfolding top_5_def by (rule in_take_sort_keyD)
      then obtain s where "kept hist s = Some (bad, d)"
        by (auto simp: screen_loop_eq set_map_filter)
      with kept_SomeD[OF this] bad show False by simp
    qed
  qed
next
  assume "app_unusable download bad"
  then have bad: "app_kept download bad = None"
    by (rule app_unusable_kept)
  show "app_get_eligible_stocks_for_today download (Some symbols)
          = app_get_eligible_stocks_for_today download (Some (filter (\<lambda>s. s \<noteq> bad) symbols))"
    by (simp add: app_get_eligible_eq app_screen_loop_eq
          map_filter_skip[of "app_kept download" bad symbols, OF bad])
  show "\<forall>rows. app_get_eligible_stocks_for_today download (Some symbols) = Inr rows \<longrightarrow>
          bad \<notin> Symbol ` set rows"
  proof (intro allI impI notI)
    fix rows assume "app_get_eligible_stocks_for_today download (Some symbols) = Inr rows"
      and "bad \<in> Symbol ` set rows"
    then obtain r where "Symbol r = bad"
      "r \<in> set (take 5 (sort_key (\<lambda>r. sort_pos (Deviation r)) (app_screen_loop download symbols [])))"
      by (auto simp: app_get_eligible_eq)
    then have "Symbol r = bad" "r \<in> set (app_screen_loop download symbols [])"
      by (auto dest: in_take_sort_keyD)
    then obtain s where "app_kept download s = Some r" "Symbol r = bad"
      by (auto simp: app_screen_loop_eq set_map_filter)
    with app_kept_SomeD[of download s r] bad show False by simp
  qed
next
  assume "\<forall>s \<in> set symbols. unusable hist s"
  then have "\<forall>s \<in> set symbols. kept hist s = None"
    by (simp add: unusable_kept)
  then have "screen_loop hist symbols [] = []"
    by (simp add: screen_loop_eq map_filter_all_None)
  then show "get_eligible_stocks_for_today hist symbols = Inr (if symbols = [] then None else Some [])"
    by (simp add: get_eligible_stocks_for_today_def top_5_def)
next
  assume "\<forall>s \<in> set symbols. app_unusable download s"
  then have "\<forall>s \<in> set symbols. app_kept download s = None"
    by (simp add: app_unusable_kept)
  then have "app_screen_loop download symbols [] = []"
    by (simp add: app_screen_loop_eq map_filter_all_None)
  then show "app_get_eligible_stocks_for_today download (Some symbols) = Inr []"
    by (simp add: app_get_eligible_eq)
next
  assume "(get_eligible_stocks_for_today hist symbols = Inr None
         \<or> get_eligible_stocks_for_today hist symbols = Inr (Some []))
        \<and> initiate_sell slf round_off_price get_cmp trades = Inr sold"
  then show "execute_strategy slf round_off_price get_cmp hist symbols trades trades_after_sell
          = Inr (sold, None)"
    by (auto simp: execute_strategy_def)
qed

lemma unusable_symbols_are_skipped_sample:
  "unusable sample_hist ''BAD'' \<and> ''BAD'' \<in> set sample_universe
   \<and> get_eligible_stocks_for_today sample_hist sample_universe
       = Inr (Some [''S4'', ''S5'', ''S2'', ''S3'', ''S6''])
   \<and> [''S4'', ''S5'', ''S2'', ''S3'', ''S6'']
       = map fst (top_5 (screen_loop sample_hist (filter (\<lambda>s. s \<noteq> ''BAD'') sample_universe) []))
   \<and> unusable sample_hist ''NONE''
   \<and> get_eligible_stocks_for_today sample_hist [''BAD'', ''NONE''] = Inr (Some [])
   \<and> app_unusable sample_hist ''BAD'' \<and> app_unusable sample_hist ''NONE''
   \<and> app_get_eligible_stocks_for_today sample_hist (Some [''BAD'', ''NONE'']) = Inr []
   \<and> execute_strategy sample_self round_off_2 sell_quotes sample_hist [''BAD'', ''NONE'']
         sell_ledger []
       = Inr ([(''A'', 8, [filled_trade ''A'' 100 10 2, filled_trade ''A'' 90 10 4])], None)"
proof -
  have u: "unusable sample_hist ''BAD''" "unusable sample_hist ''NONE''"
    by (simp_all add: unusable_def sample_hist_def)
  have au: "app_unusable sample_hist ''BAD''" "app_unusable sample_hist ''NONE''"
    by (simp_all add: app_unusable_def get_historical_data_def sample_hist_def)
  have m: "''BAD'' \<in> set sample_universe"
    by (simp add: sample_universe_def)
  from unusable_symbols_are_skipped[of sample_hist sample_universe sample_hist "''BAD''"]
    u sample_get_eligible
  have a: "[''S4'', ''S5'', ''S2'', ''S3'', ''S6'']
       = map fst (top_5 (screen_loop sample_hist (filter (\<lambda>s. s \<noteq> ''BAD'') sample_universe) []))"
    by simp
  note inst = unusable_symbols_are_skipped[of sample_hist "[''BAD'', ''NONE'']" sample_hist
      "''BAD''" sample_self round_off_2 sell_quotes sell_ledger
      "[(''A'', 8, [filled_trade ''A'' 100 10 2, filled_trade ''A'' 90 10 4])]" "[]"]
  have all_u: "\<forall>s \<in> set [''BAD'', ''NONE'']. unusable sample_hist s"
    and all_au: "\<forall>s \<in> set [''BAD'', ''NONE'']. app_unusable sample_hist s"
    using u au by simp_all
  have b: "get_eligible_stocks_for_today sample_hist [''BAD'', ''NONE''] = Inr (Some [])"
    using inst[THEN conjunct2, THEN conjunct2, THEN conjunct2, THEN conjunct2, THEN conjunct1]
      all_u by simp
  have b': "app_get_eligible_stocks_for_today sample_hist (Some [''BAD'', ''NONE'']) = Inr []"
    using inst[THEN conjunct2, THEN conjunct2, THEN conjunct2, THEN conjunct2, THEN conjunct2,
        THEN conjunct1]
      all_au by simp
  have c: "execute_strategy sample_self round_off_2 sell_quotes sample_hist [''BAD'', ''NONE'']
         sell_ledger []
       = Inr ([(''A'', 8, [filled_trade ''A'' 100 10 2, filled_trade ''A'' 90 10 4])], None)"
    using inst[THEN conjunct2, THEN conjunct2, THEN conjunct2, THEN conjunct2, THEN conjunct2,
        THEN conjunct2]
      b sell_sample by blast
  from u au m a b b' c show ?thesis
    using sample_get_eligible by blast
qed

text \<open>
  C8. What the claim says of single symbols holds on every universe that is a list, as
  shown above, but a run of the dashboard's screening can fail. When the index service
  replies without any symbol, \<open>get_nifty50_symbols\<close> returns None, not the static list
  it returns after an exception, and \<open>get_eligible_stocks_for_today\<close> raises TypeError
  on it before its loop. The strategy module returns without an error on its empty
  universe.
\<close>

theorem dashboard_screening_fails_without_universe:
  "get_nifty50_symbols (Data []) = None
   \<and> dashboard_screening download (Data []) = Inl TypeError
   \<and> get_nifty50_symbols Fails = Some static_nifty50
   \<and> get_eligible_stocks_for_today hist [] = Inr None"
  by (simp add: get_nifty50_symbols_def dashboard_screening_def
        app_get_eligible_stocks_for_today_def get_eligible_stocks_for_today_def)

text \<open>
  C9 as stated fails: two symbols with the same deviation come out in the order in
  which the universe lists them, so a permutation of the universe changes the result.
\<close>

theorem screening_order_dependent_on_ties:
  "mset [''A'', ''B''] = mset [''B'', ''A'']
   \<and> get_eligible_stocks_for_today tie_hist [''A'', ''B''] = Inr (Some [''A'', ''B''])
   \<and> get_eligible_stocks_for_today tie_hist [''B'', ''A''] = Inr (Some [''B'', ''A''])"
proof -
  have k: "kept tie_hist s = Some (s, Fin (- (1900 / 99)))" for s
    by (simp add: kept_sample[of tie_hist s 100 80] tie_hist_def pct_diff_def)
  show ?thesis
    by (simp add: get_eligible_stocks_for_today_def top_5_def screen_loop_eq
          List.map_filter_simps k)
qed

text \<open>
  C9, amended. When no two of the collected results have the same deviation, the
  screening returns the same ordered result for every permutation of the universe, in
  the strategy module and in the dashboard.
\<close>

theorem screening_order_independent_without_ties:
  assumes "mset symbols = mset symbols'"
  shows "(inj_on snd (set (screen_loop hist symbols [])) \<longrightarrow>
            get_eligible_stocks_for_today hist symbols
              = get_eligible_stocks_for_today hist symbols')
       \<and> (inj_on Deviation (set (app_screen_loop download symbols [])) \<longrightarrow>
            app_get_eligible_stocks_for_today download (Some symbols)
              = app_get_eligible_stocks_for_today download (Some symbols'))"
proof (intro conjI impI)
  assume inj: "inj_on snd (set (screen_loop hist symbols []))"
  let ?f = "\<lambda>x::symbol \<times> npfloat. sort_pos (snd x)"
  have m: "mset (screen_loop hist symbols []) = mset (screen_loop hist symbols' [])"
    by (simp add: screen_loop_eq mset_map_filter[OF assms])
  have "inj_on ?f (set (screen_loop hist symbols []))"
    using inj sort_pos_inj by (auto simp: inj_on_def dest: injD)
  then have "sort_key ?f (screen_loop hist symbols []) = sort_key ?f (screen_loop hist symbols' [])"
    using m by (intro sort_key_inj_key_eq) simp_all
  moreover have "symbols = [] \<longleftrightarrow> symbols' = []"
    using assms by (metis mset_zero_iff)
  ultimately show "get_eligible_stocks_for_today hist symbols
      = get_eligible_stocks_for_today hist symbols'"
    by (simp add: get_eligible_stocks_for_today_def top_5_def)
next
  assume inj: "inj_on Deviation (set (app_screen_loop download symbols []))"
  let ?f = "\<lambda>r::screen_row. sort_pos (Deviation r)"
  have m: "mset (app_screen_loop download symbols []) = mset (app_screen_loop download symbols' [])"
    by (simp add: app_screen_loop_eq mset_map_filter[OF assms])
  have "inj_on ?f (set (app_screen_loop download symbols []))"
    using inj sort_pos_inj by (auto simp: inj_on_def dest: injD)
  then have "sort_key ?f (app_screen_loop download symbols [])
      = sort_key ?f (app_screen_loop download symbols' [])"
    using m by (intro sort_key_inj_key_eq) simp_all
  then show "app_get_eligible_stocks_for_today download (Some symbols)
      = app_get_eligible_stocks_for_today download (Some symbols')"
    by (simp add: app_get_eligible_eq)
qed

theorem screening_order_independent_without_ties_witness:
  "mset sample_universe = mset (rev sample_universe)
   \<and> inj_on snd (set (screen_loop sample_hist sample_universe []))
   \<and> get_eligible_stocks_for_today sample_hist (rev sample_universe)
       = Inr (Some [''S4'', ''S5'', ''S2'', ''S3'', ''S6''])
   \<and> inj_on Deviation (set (app_screen_loop sample_hist sample_universe []))
   \<and> app_get_eligible_stocks_for_today sample_hist (Some (rev sample_universe)) = Inr sample_table"
proof -
  have m: "mset sample_universe = mset (rev sample_universe)"
    by simp
  have i: "inj_on snd (set (screen_loop sample_hist sample_universe []))"
    unfolding sample_results by simp
  have j: "inj_on Deviation (set (app_screen_loop sample_hist sample_universe []))"
    unfolding app_sample_loop by simp
  note inst = screening_order_independent_without_ties[OF m, of sample_hist sample_hist]
  from inst i
  have a: "get_eligible_stocks_for_today sample_hist (rev sample_universe)
       = Inr (Some [''S4'', ''S5'', ''S2'', ''S3'', ''S6''])"
    by (simp add: sample_get_eligible)
  from inst j
  have b: "app_get_eligible_stocks_for_today sample_hist (Some (rev sample_universe)) = Inr sample_table"
    by (simp add: app_sample)
  from m i j a b show ?thesis by simp
qed

section \<open>Properties of the sell pass\<close>







text \<open>
  C5. For every symbol with matching active, fully-filled trades, the dictionary of
  the sell pass holds exactly one entry for it, with those trades, and the weighted
  entry price the pass computes from the entry is the sum of entry price times filled
  quantity over those trades divided by their total filled quantity; when that
  quantity is not zero and there is a quote, it is the price the P&L percentage of the
  loop body is taken from. For the fills (100, 10) and (90, 10) it is 95.
\<close>

theorem weighted_entry_is_quantity_weighted_mean:
  assumes "symbol_trades slf trades = Inr groups"
    and "matching_trades slf trades s \<noteq> []"
  shows "\<exists>g. (s, g) \<in> set groups \<and> g = matching_trades slf trades s
           \<and> (\<forall>g'. (s, g') \<in> set groups \<longrightarrow> g' = g)
           \<and> weighted_entry g
               = sum_list (map (\<lambda>t. entry t * of_int (filledQty t)) (matching_trades slf trades s))
                   / of_int (sum_list (map filledQty (matching_trades slf trades s)))
           \<and> (\<forall>cmp. total_qty g \<noteq> 0 \<and> get_cmp s = Some cmp \<longrightarrow>
                 sell_candidate slf round_off_price get_cmp (s, g)
                   = (if of_int (total_qty g) * weighted_entry g = 0 then Inl ZeroDivisionError
                      else if target_pct slf
                                \<le> round_off_price ((cmp - weighted_entry g) / weighted_entry g * 100)
                      then Inr (Some (s, round_off_price
                                  ((cmp - weighted_entry g) / weighted_entry g * 100), g))
                      else Inr None))"
proof -
  let ?g = "matching_trades slf trades s"
  note G = symbol_trades_InrD[OF assms(1)]
  have "(s, ?g) \<in> set groups"
    using G(2)[of s ?g] assms(2) by simp
  moreover have "\<forall>g'. (s, g') \<in> set groups \<longrightarrow> g' = ?g"
    using G(2) by simp
  moreover have "weighted_entry ?g
      = sum_list (map (\<lambda>t. entry t * of_int (filledQty t)) ?g) / of_int (sum_list (map filledQty ?g))"
    by (simp add: weighted_entry_def total_qty_def)
  moreover have "\<forall>cmp. total_qty ?g \<noteq> 0 \<and> get_cmp s = Some cmp \<longrightarrow>
       sell_candidate slf round_off_price get_cmp (s, ?g)
         = (if of_int (total_qty ?g) * weighted_entry ?g = 0 then Inl ZeroDivisionError
            else if target_pct slf
                      \<le> round_off_price ((cmp - weighted_entry ?g) / weighted_entry ?g * 100)
            then Inr (Some (s, round_off_price
                        ((cmp - weighted_entry ?g) / weighted_entry ?g * 100), ?g))
            else Inr None)"
  proof (intro allI impI)
    fix cmp assume h: "total_qty ?g \<noteq> 0 \<and> get_cmp s = Some cmp"
    show "sell_candidate slf round_off_price get_cmp (s, ?g)
         = (if of_int (total_qty ?g) * weighted_entry ?g = 0 then Inl ZeroDivisionError
            else if target_pct slf
                      \<le> round_off_price ((cmp - weighted_entry ?g) / weighted_entry ?g * 100)
            then Inr (Some (s, round_off_price
                        ((cmp - weighted_entry ?g) / weighted_entry ?g * 100), ?g))
            else Inr None)"
    proof (cases "of_int (total_qty ?g) * weighted_entry ?g = 0")
      case True
      with h show ?thesis by (simp add: sell_candidate_def Let_def)
    next
      case False
      with h pnl_formula[OF False, of cmp] show ?thesis
        by (simp add: sell_candidate_def Let_def)
    qed
  qed
  ultimately show ?thesis by blast
qed

lemma sample_symbol_trades:
  "symbol_trades sample_self sell_ledger =
     Inr [(''B'', [filled_trade ''B'' 200 5 1]),
          (''A'', [filled_trade ''A'' 100 10 2, filled_trade ''A'' 90 10 4]),
          (''C'', [filled_trade ''C'' 50 4 3]),
          (''D'', [filled_trade ''D'' 10 1 5])]"
  by code_simp

lemma sample_matching_A:
  "matching_trades sample_self sell_ledger ''A''
     = [filled_trade ''A'' 100 10 2, filled_trade ''A'' 90 10 4]"
  by code_simp

theorem weighted_entry_is_quantity_weighted_mean_witness:
  "symbol_trades sample_self sell_ledger =
     Inr [(''B'', [filled_trade ''B'' 200 5 1]),
          (''A'', [filled_trade ''A'' 100 10 2, filled_trade ''A'' 90 10 4]),
          (''C'', [filled_trade ''C'' 50 4 3]),
          (''D'', [filled_trade ''D'' 10 1 5])]
   \<and> matching_trades sample_self sell_ledger ''A''
       = [filled_trade ''A'' 100 10 2, filled_trade ''A'' 90 10 4]
   \<and> entry (filled_trade ''A'' 100 10 2) = 100 \<and> filledQty (filled_trade ''A'' 100 10 2) = 10
   \<and> entry (filled_trade ''A'' 90 10 4) = 90 \<and> filledQty (filled_trade ''A'' 90 10 4) = 10
   \<and> weighted_entry [filled_trade ''A'' 100 10 2, filled_trade ''A'' 90 10 4] = 95
   \<and> total_qty [filled_trade ''A'' 100 10 2, filled_trade ''A'' 90 10 4] = 20
   \<and> sell_quotes ''A'' = Some (513 / 5)
   \<and> sell_candidate sample_self round_off_2 sell_quotes
        (''A'', [filled_trade ''A'' 100 10 2, filled_trade ''A'' 90 10 4])
       = Inr (Some (''A'', 8, [filled_trade ''A'' 100 10 2, filled_trade ''A'' 90 10 4]))"
proof -
  let ?g = "[filled_trade ''A'' 100 10 2, filled_trade ''A'' 90 10 4]"
  have ne: "matching_trades sample_self sell_ledger ''A'' \<noteq> []"
    by (simp add: sample_matching_A)
  from weighted_entry_is_quantity_weighted_mean[OF sample_symbol_trades ne,
      of sell_quotes round_off_2]
  have w: "weighted_entry ?g
      = sum_list (map (\<lambda>t. entry t * of_int (filledQty t)) ?g) / of_int (sum_list (map filledQty ?g))"
    and c: "\<forall>cmp. total_qty ?g \<noteq> 0 \<and> sell_quotes ''A'' = Some cmp \<longrightarrow>
       sell_candidate sample_self round_off_2 sell_quotes (''A'', ?g)
         = (if of_int (total_qty ?g) * weighted_entry ?g = 0 then Inl ZeroDivisionError
            else if target_pct sample_self
                      \<le> round_off_2 ((cmp - weighted_entry ?g) / weighted_entry ?g * 100)
            then Inr (Some (''A'', round_off_2
                        ((cmp - weighted_entry ?g) / weighted_entry ?g * 100), ?g))
            else Inr None)"
    unfolding sample_matching_A by blast+
  have f: "entry (filled_trade ''A'' 100 10 2) = 100" "filledQty (filled_trade ''A'' 100 10 2) = 10"
    "entry (filled_trade ''A'' 90 10 4) = 90" "filledQty (filled_trade ''A'' 90 10 4) = 10"
    by (simp_all add: filled_trade_def)
  have w95: "weighted_entry ?g = 95"
    unfolding w by (simp add: f)
  have q: "total_qty ?g = 20"
    by (simp add: total_qty_def f)
  have quote: "sell_quotes ''A'' = Some (513 / 5)"
    by (simp add: sell_quotes_def)
  have r: "round_off_2 ((513 / 5 - 95) / 95 * 100) = 8"
    by (simp add: round_off_2_def rint_def)
  have "total_qty ?g \<noteq> 0 \<and> sell_quotes ''A'' = Some (513 / 5)"
    using q quote by simp
  from c[rule_format, OF this]
  have "sell_candidate sample_self round_off_2 sell_quotes (''A'', ?g)
       = Inr (Some (''A'', 8, ?g))"
    unfolding w95 q r by (simp add: sample_self_def)
  with w95 q quote f show ?thesis
    using sample_symbol_trades sample_matching_A by simp
qed

section \<open>Lemmas on the averaging step\<close>











lemma initiate_buy_mutex:
  "initiate_buy slf get_cmp trades stock_list = Inr r \<Longrightarrow>
     new_buys r = new_buys_loop slf trades stock_list []
     \<and> (new_buys r \<noteq> [] \<longrightarrow> averaging_buy r = None)"
  by (auto simp: initiate_buy_def Let_def split: if_splits sum.splits list.splits)

section \<open>Properties of the buy and averaging pass\<close>

text \<open>
  C2. Within one run of the buy pass the averaging step is evaluated only when the
  first loop placed no new buy. When the loop places a buy, the pass returns these
  buys and no averaging buy, whatever the holdings and the quotes are (the ledger rows
  of the averaging step are not even read); every result of the pass, and so of a
  decision cycle, has either no new buy or no averaging buy.
\<close>

theorem averaging_only_without_new_buys:
  "(new_buys_loop slf trades stock_list [] \<noteq> [] \<longrightarrow>
      initiate_buy slf get_cmp trades stock_list
        = Inr \<lparr>new_buys = new_buys_loop slf trades stock_list [], averaging_buy = None\<rparr>)
   \<and> (\<forall>r. initiate_buy slf get_cmp trades stock_list = Inr r \<longrightarrow>
          new_buys r = new_buys_loop slf trades stock_list []
          \<and> (new_buys r \<noteq> [] \<longrightarrow> averaging_buy r = None)
          \<and> (averaging_buy r \<noteq> None \<longrightarrow> new_buys r = []))
   \<and> (\<forall>sold r. execute_strategy slf round_off_price get_cmp hist symbols trades_before trades
                   = Inr (sold, Some r) \<longrightarrow>
          (new_buys r \<noteq> [] \<longrightarrow> averaging_buy r = None)
          \<and> (averaging_buy r \<noteq> None \<longrightarrow> new_buys r = []))"
proof (intro conjI impI allI)
  assume "new_buys_loop slf trades stock_list [] \<noteq> []"
  then show "initiate_buy slf get_cmp trades stock_list
        = Inr \<lparr>new_buys = new_buys_loop slf trades stock_list [], averaging_buy = None\<rparr>"
    by (simp add: initiate_buy_def Let_def)
next
  fix r assume r: "initiate_buy slf get_cmp trades stock_list = Inr r"
  from initiate_buy_mutex[OF r]
  show "new_buys r = new_buys_loop slf trades stock_list []" by simp
  from initiate_buy_mutex[OF r]
  show "averaging_buy r = None" if "new_buys r \<noteq> []" using that by simp
  from initiate_buy_mutex[OF r]
  show "new_buys r = []" if "averaging_buy r \<noteq> None" using that by blast
next
  fix sold r
  assume "execute_strategy slf round_off_price get_cmp hist symbols trades_before trades
            = Inr (sold, Some r)"
  then obtain stock_list where r: "initiate_buy slf get_cmp trades stock_list = Inr r"
    by (auto simp: execute_strategy_def split: sum.splits option.splits list.splits)
  from initiate_buy_mutex[OF r]
  show "averaging_buy r = None" if "new_buys r \<noteq> []" using that by simp
  from initiate_buy_mutex[OF r]
  show "new_buys r = []" if "averaging_buy r \<noteq> None" using that by blast
qed

lemma avg_sample_first_loop:
  "new_buys_loop sample_self avg_ledger [''NEW'', ''X''] [] = [''NEW'']"
  "new_buys_loop sample_self avg_ledger [''X''] [] = []"
  by (simp_all add: already_held_def avg_ledger_def filled_trade_def sample_self_def)

lemma avg_sample_runs:
  "initiate_buy sample_self avg_quotes avg_ledger [''X'']
     = Inr \<lparr>new_buys = [], averaging_buy = Some ''Y''\<rparr>"
  "initiate_buy sample_self avg_quotes avg_ledger [''NEW'', ''X'']
     = Inr \<lparr>new_buys = [''NEW''], averaging_buy = None\<rparr>"
proof -
  show "initiate_buy sample_self avg_quotes avg_ledger [''X'']
     = Inr \<lparr>new_buys = [], averaging_buy = Some ''Y''\<rparr>"
    by code_simp
  show "initiate_buy sample_self avg_quotes avg_ledger [''NEW'', ''X'']
     = Inr \<lparr>new_buys = [''NEW''], averaging_buy = None\<rparr>"
    by (simp add: initiate_buy_def avg_sample_first_loop(1) del: new_buys_loop.simps)
qed

lemma avg_sample_candidates:
  "averaging_candidate sample_self avg_quotes avg_ledger ''X''"
  "averaging_candidate sample_self avg_quotes avg_ledger ''Y''"
  "\<not> averaging_candidate sample_self avg_quotes avg_ledger ''Z''"
  "candidate_change sample_self avg_quotes avg_ledger ''X'' = Fin (- (139 / 25))"
  "candidate_change sample_self avg_quotes avg_ledger ''Y'' = Fin (- 6)"
  "candidate_change sample_self avg_quotes avg_ledger ''Z'' = Fin (- 50)"
  "current_averaging_count sample_self avg_ledger ''Z'' = 3"
  by code_simp+

theorem averaging_only_without_new_buys_witness:
  "new_buys_loop sample_self avg_ledger [''NEW'', ''X''] [] = [''NEW'']
   \<and> averaging_candidate sample_self avg_quotes avg_ledger ''Y''
   \<and> initiate_buy sample_self avg_quotes avg_ledger [''NEW'', ''X'']
       = Inr \<lparr>new_buys = [''NEW''], averaging_buy = None\<rparr>
   \<and> initiate_buy sample_self avg_quotes avg_ledger [''X'']
       = Inr \<lparr>new_buys = [], averaging_buy = Some ''Y''\<rparr>"
proof -
  have ne: "new_buys_loop sample_self avg_ledger [''NEW'', ''X''] [] \<noteq> []"
    by (simp add: avg_sample_first_loop(1) del: new_buys_loop.simps)
  from averaging_only_without_new_buys[of sample_self avg_ledger "[''NEW'', ''X'']" avg_quotes] ne
  have "initiate_buy sample_self avg_quotes avg_ledger [''NEW'', ''X'']
       = Inr \<lparr>new_buys = [''NEW''], averaging_buy = None\<rparr>"
    by (simp add: avg_sample_first_loop(1) del: new_buys_loop.simps)
  then show ?thesis
    using avg_sample_runs(1) avg_sample_first_loop(1) avg_sample_candidates(2)
    by (simp del: new_buys_loop.simps)
qed

text \<open>
  C6. A symbol whose averaging count has reached \<open>max_averaging_per_stock\<close> is not
  among the rows of the averaging step and is never the averaging buy, whatever the
  quotes are. The count is the number of trades of the strategy for the symbol that
  are long and whose entry order is complete and filled; the trade state plays no
  part, so closed trades count as well.
\<close>

theorem capped_symbol_never_averaged:
  assumes "max_averaging_per_stock slf \<le> int (current_averaging_count slf trades s)"
  shows "s \<notin> row_Symbol ` set (averaging_frame slf get_cmp trades rows)
       \<and> \<not> averaging_candidate slf get_cmp trades s
       \<and> (\<forall>r. initiate_buy slf get_cmp trades stock_list = Inr r \<longrightarrow> averaging_buy r \<noteq> Some s)
       \<and> current_averaging_count slf trades s
           = length (filter (\<lambda>t. strategy t = strategy_name slf \<and> tradingSymbol t = s
                                 \<and> direction t = LONG
                                 \<and> (\<exists>ord. entryOrder t = Some ord \<and> orderStatus ord = COMPLETE
                                          \<and> 0 < order_filledQty ord)) trades)
       \<and> current_averaging_count slf (map (\<lambda>t. t\<lparr>tradeState := st\<rparr>) trades) s
           = current_averaging_count slf trades s"
proof (intro conjI allI impI)
  show frame: "s \<notin> row_Symbol ` set (averaging_frame slf get_cmp trades rows)" for rows
    using assms by (auto simp: averaging_frame_def)
  show "\<not> averaging_candidate slf get_cmp trades s"
    using assms by (simp add: averaging_candidate_def)
  show "averaging_buy r \<noteq> Some s" if "initiate_buy slf get_cmp trades stock_list = Inr r" for r
  proof
    assume "averaging_buy r = Some s"
    with that obtain hs x xs where
      "averaging_frame slf get_cmp trades (map row_of hs) = x # xs" "row_Symbol x = s"
      by (auto simp: initiate_buy_def Let_def split: if_splits sum.splits list.splits)
    then have "s \<in> row_Symbol ` set (averaging_frame slf get_cmp trades (map row_of hs))"
      by force
    with frame show False by blast
  qed
  have "(case entryOrder t of None \<Rightarrow> False
         | Some ord \<Rightarrow> orderStatus ord = COMPLETE \<and> 0 < order_filledQty ord)
      = (\<exists>ord. entryOrder t = Some ord \<and> orderStatus ord = COMPLETE \<and> 0 < order_filledQty ord)"
    for t :: trade
    by (cases "entryOrder t") simp_all
  then show "current_averaging_count slf trades s
           = length (filter (\<lambda>t. strategy t = strategy_name slf \<and> tradingSymbol t = s
                                 \<and> direction t = LONG
                                 \<and> (\<exists>ord. entryOrder t = Some ord \<and> orderStatus ord = COMPLETE
                                          \<and> 0 < order_filledQty ord)) trades)"
    by (simp add: current_averaging_count_def)
  show "current_averaging_count slf (map (\<lambda>t. t\<lparr>tradeState := st\<rparr>) trades) s
           = current_averaging_count slf trades s"
    by (simp add: current_averaging_count_def filter_map comp_def)
qed

theorem capped_symbol_never_averaged_witness:
  "max_averaging_per_stock sample_self = 3
   \<and> current_averaging_count sample_self avg_ledger ''Z'' = 3
   \<and> candidate_change sample_self avg_quotes avg_ledger ''Z'' = Fin (- 50)
   \<and> candidate_change sample_self avg_quotes avg_ledger ''Y'' = Fin (- 6)
   \<and> \<not> averaging_candidate sample_self avg_quotes avg_ledger ''Z''
   \<and> initiate_buy sample_self avg_quotes avg_ledger [''X'']
       = Inr \<lparr>new_buys = [], averaging_buy = Some ''Y''\<rparr>
   \<and> ''Y'' \<noteq> ''Z''"
proof -
  have cap: "max_averaging_per_stock sample_self = 3"
    by (simp add: sample_self_def)
  then have "max_averaging_per_stock sample_self
      \<le> int (current_averaging_count sample_self avg_ledger ''Z'')"
    by (simp add: avg_sample_candidates(7))
  from capped_symbol_never_averaged[OF this, of avg_quotes "[]" "[''X'']" "''active''"]
  have "\<not> averaging_candidate sample_self avg_quotes avg_ledger ''Z''"
    by blast
  with cap show ?thesis
    using avg_sample_candidates(5,6,7) avg_sample_runs(1) by simp
qed








section \<open>Properties of the dashboard's recommendations\<close>

lemma potential_avg_mem:
  "(s, c) \<in> set (potential_avg avg_pct eligible hs) \<Longrightarrow>
     \<exists>row e. row \<in> set hs \<and> held_Symbol row = s \<and> e \<in> set eligible \<and> Symbol e = s
             \<and> c = pct_diff (Some (CMP e)) (Entry row) \<and> np_le_real c avg_pct"
proof (induction hs)
  case Nil
  then show ?case by simp
next
  case (Cons row rest)
  show ?case
  proof (cases "filter (\<lambda>e. Symbol e = held_Symbol row) eligible")
    case Nil
    with Cons show ?thesis by auto
  next
    case (Cons e es)
    then have e: "e \<in> set eligible" "Symbol e = held_Symbol row"
      using filter_eq_ConsD[OF Cons] by auto
    from Cons.prems Cons.IH Cons e show ?thesis
      by (auto simp: Let_def split: if_splits)
  qed
qed

text \<open>
  C10. In the dashboard every averaging candidate, and so the symbol of an AVERAGE
  recommendation, is a held symbol that has a row in the screened table, and its
  change is computed from the CMP of such a row. A held symbol without a row in the
  table is no candidate and is never recommended for averaging, whatever its entry
  price is. The table is any screened table, in particular the result of the
  dashboard's screening, which has at most five rows.
\<close>

theorem dashboard_averaging_only_for_screened_symbols:
  "(\<forall>c. (s, c) \<in> set (potential_avg avg_pct eligible holdings_df) \<longrightarrow>
        (\<exists>row e. row \<in> set holdings_df \<and> held_Symbol row = s \<and> e \<in> set eligible
                \<and> Symbol e = s \<and> c = pct_diff (Some (CMP e)) (Entry row)
                \<and> np_le_real c avg_pct))
   \<and> (\<forall>c. AVERAGE s c \<in> set (buy_decisions avg_pct max_buys eligible holdings_df) \<longrightarrow>
        s \<in> Symbol ` set eligible \<and> s \<in> held_Symbol ` set holdings_df)
   \<and> (s \<notin> Symbol ` set eligible \<longrightarrow>
        s \<notin> fst ` set (potential_avg avg_pct eligible holdings_df)
        \<and> (\<forall>c. AVERAGE s c \<notin> set (buy_decisions avg_pct max_buys eligible holdings_df)))
   \<and> (\<forall>download symbols. app_get_eligible_stocks_for_today download (Some symbols) = Inr eligible
        \<longrightarrow> length eligible \<le> 5)"
proof -
  have P: "\<exists>row e. row \<in> set holdings_df \<and> held_Symbol row = s \<and> e \<in> set eligible
                \<and> Symbol e = s \<and> c = pct_diff (Some (CMP e)) (Entry row)
                \<and> np_le_real c avg_pct"
    if "(s, c) \<in> set (potential_avg avg_pct eligible holdings_df)" for s c
    using that by (rule potential_avg_mem)
  have A: "(s, c) \<in> set (potential_avg avg_pct eligible holdings_df)"
    if "AVERAGE s c \<in> set (buy_decisions avg_pct max_buys eligible holdings_df)" for s c
  proof -
    let ?S = "sort_key (\<lambda>p. sort_pos (snd p)) (potential_avg avg_pct eligible holdings_df)"
    from that obtain p ps where "?S = p # ps" "s = fst p" "c = snd p"
      by (auto simp: buy_decisions_def Let_def split: if_splits list.splits)
    then have "(s, c) \<in> set ?S" by simp
    then show ?thesis by simp
  qed
  have 1: "\<forall>c. AVERAGE s c \<in> set (buy_decisions avg_pct max_buys eligible holdings_df) \<longrightarrow>
        s \<in> Symbol ` set eligible \<and> s \<in> held_Symbol ` set holdings_df"
    using A P by (metis image_eqI)
  have 2: "s \<notin> Symbol ` set eligible \<longrightarrow>
        s \<notin> fst ` set (potential_avg avg_pct eligible holdings_df)
        \<and> (\<forall>c. AVERAGE s c \<notin> set (buy_decisions avg_pct max_buys eligible holdings_df))"
  proof (intro impI conjI allI)
    assume n: "s \<notin> Symbol ` set eligible"
    show "s \<notin> fst ` set (potential_avg avg_pct eligible holdings_df)"
    proof
      assume "s \<in> fst ` set (potential_avg avg_pct eligible holdings_df)"
      then obtain c where "(s, c) \<in> set (potential_avg avg_pct eligible holdings_df)"
        by force
      from P[OF this] n show False by force
    qed
    show "AVERAGE s c \<notin> set (buy_decisions avg_pct max_buys eligible holdings_df)" for c
      using 1 n by blast
  qed
  have 3: "\<forall>download symbols. app_get_eligible_stocks_for_today download (Some symbols) = Inr eligible
        \<longrightarrow> length eligible \<le> 5"
    by (auto simp: app_get_eligible_eq)
  from P 1 2 3 show ?thesis by blast
qed

lemma dash_sample:
  "buy_decisions (- 5) 1 dash_table dash_holdings = [AVERAGE ''S4'' (Fin (- 40))]"
  by code_simp

theorem dashboard_averaging_only_for_screened_symbols_witness:
  "app_get_eligible_stocks_for_today sample_hist (Some [''S4'', ''H'']) = Inr dash_table
   \<and> buy_decisions (- 5) 1 dash_table dash_holdings = [AVERAGE ''S4'' (Fin (- 40))]
   \<and> ''S4'' \<in> Symbol ` set dash_table
   \<and> ''H'' \<in> held_Symbol ` set dash_holdings
   \<and> ''H'' \<notin> Symbol ` set dash_table
   \<and> ''H'' \<notin> fst ` set (potential_avg (- 5) dash_table dash_holdings)
   \<and> length dash_table \<le> 5"
proof -
  note inst = dashboard_averaging_only_for_screened_symbols
  have h: "''H'' \<notin> Symbol ` set dash_table" "''H'' \<in> held_Symbol ` set dash_holdings"
    by (simp_all add: dash_table_def dash_holdings_def)
  from inst[of "''H''" "- 5" dash_table dash_holdings 1] h(1)
  have a: "''H'' \<notin> fst ` set (potential_avg (- 5) dash_table dash_holdings)"
    by blast
  have "AVERAGE ''S4'' (Fin (- 40)) \<in> set (buy_decisions (- 5) 1 dash_table dash_holdings)"
    by (simp add: dash_sample)
  with inst[of "''S4''" "- 5" dash_table dash_holdings 1]
  have b: "''S4'' \<in> Symbol ` set dash_table"
    by blast
  from inst[of "''S4''" "- 5" dash_table dash_holdings 1] app_dash_sample
  have c: "length dash_table \<le> 5"
    by blast
  from a b c h show ?thesis
    using dash_sample app_dash_sample by simp
qed

end
